theory Spec2Isabelle
  imports Main "HOL-Library.Sublist"
begin

section \<open>Data model of \<^verbatim>\<open>backend/ai_generator.py\<close>\<close>

text \<open>
  The six states of the conversation state machine (\<^verbatim>\<open>class ConversationState(Enum)\<close>).
\<close>

datatype ConversationState =
  INITIAL | AWAITING_TOOL_DECISION | EXECUTING_TOOLS | AWAITING_FOLLOW_UP | COMPLETED | ERROR

text \<open>
  Python exceptions raised by the module's own code: reading an attribute that an object
  does not have, indexing an empty list, and the \<^verbatim>\<open>ValueError\<close> of \<^verbatim>\<open>_dispatch_state\<close>.
\<close>

datatype py_error = AttributeError | IndexError | ValueError

text \<open>
  A tool input is a JSON object; it is only passed through, so it is kept as an
  association list of keys and (serialised) values.
\<close>

type_synonym tool_input = "(string \<times> string) list"

text \<open>
  Modelled from the spec: the content blocks of a model response. Their classes belong to
  the \<^verbatim>\<open>anthropic\<close> client library, which is not part of the repository; the spec (4.2)
  gives a block as either text or a named tool-invocation request with a correlation
  identifier and a structured input. The source probes blocks by attribute
  (\<^verbatim>\<open>hasattr(b, 'text')\<close>, \<^verbatim>\<open>hasattr(b, 'type') and b.type == "tool_use"\<close>), so a
  third kind is kept for blocks that are neither (a thinking block, say):
  \<^item> \<open>TextBlock text\<close>: the only kind with a \<^verbatim>\<open>text\<close> attribute;
  \<^item> \<open>ToolUseBlock id name input\<close>: the only kind whose \<^verbatim>\<open>type\<close> is \<^verbatim>\<open>"tool_use"\<close>;
  \<^item> \<open>OtherBlock\<close>: no \<^verbatim>\<open>text\<close> attribute, and a \<^verbatim>\<open>type\<close> other than \<^verbatim>\<open>"tool_use"\<close>.
\<close>

datatype content_block =
  TextBlock string
| ToolUseBlock string string tool_input
| OtherBlock

text \<open>Modelled from the spec: a model response, \<open>{stopReason, content[]}\<close> (spec 6).\<close>

record response =
  stop_reason :: string
  content :: "content_block list"

text \<open>The dict \<^verbatim>\<open>{"type": "tool_result", "tool_use_id": ..., "content": ...}\<close>.\<close>

record tool_result =
  tr_type :: string
  tr_tool_use_id :: string
  tr_content :: string

text \<open>
  A message is a dict \<^verbatim>\<open>{"role": ..., "content": ...}\<close>; its content is the query string,
  the content blocks of an assistant turn, or the batched tool results of a user turn.
\<close>

datatype message_content =
  StrContent string
| BlockContent "content_block list"
| ResultContent "tool_result list"

record message =
  role :: string
  m_content :: message_content

text \<open>One entry of \<^verbatim>\<open>tool_call_history\<close>, as \<^verbatim>\<open>add_tool_call\<close> builds it.\<close>

record tool_call =
  tc_index :: int
  tc_tool_name :: string
  tc_input :: tool_input
  tc_result :: string
  tc_timestamp :: string

text \<open>\<^verbatim>\<open>@dataclass class ConversationContext\<close>.\<close>

record ConversationContext =
  messages :: "message list"
  system_prompt :: string
  tool_call_count :: int
  tool_call_history :: "tool_call list"
  intermediate_responses :: "string list"
  metadata :: "(string \<times> string) list"

text \<open>
  The values a transition's \<^verbatim>\<open>data\<close> dict holds. \<^verbatim>\<open>data\<close> itself is an association list
  in insertion order, read with \<open>map_of\<close>: \<^verbatim>\<open>"k" in data\<close> is \<open>map_of data ''k'' \<noteq> None\<close>.
\<close>

datatype py_value =
  PyNone
| PyStr string
| PyResponse response
| PyBlocks "content_block list"
| PyResults "tool_result list"

text \<open>\<^verbatim>\<open>@dataclass class StateTransition\<close>; every constructor call of the source passes a dict.\<close>

record StateTransition =
  from_state :: ConversationState
  to_state :: ConversationState
  trigger :: string
  data :: "(string \<times> py_value) list"

text \<open>
  The keyword arguments of \<^verbatim>\<open>messages.create\<close>. A tool declaration is opaque to this
  module. \<open>p_tool_choice = Some ''auto''\<close> stands for \<^verbatim>\<open>{"type": "auto"}\<close>; \<open>None\<close> in
  \<open>p_tools\<close> and \<open>p_tool_choice\<close> means that the key is absent.
\<close>

type_synonym tool_decl = string

record api_params =
  p_model :: string
  p_temperature :: int
  p_max_tokens :: int
  p_messages :: "message list"
  p_system :: string
  p_tools :: "tool_decl list option"
  p_tool_choice :: "string option"

section \<open>The external collaborators\<close>

text \<open>
  The module talks to three things outside itself: the model service
  (\<^verbatim>\<open>client.messages.create\<close>), the tool manager (\<^verbatim>\<open>tool_manager.execute_tool\<close>) and the clock
  (\<^verbatim>\<open>datetime.now().isoformat()\<close>). Every interaction is appended to a trace, and each
  collaborator answers as a function of the trace so far and of its arguments: this is
  any deterministic environment, stateful or not. The collaborators are assumed to
  return; an exception of theirs is not caught by the module and is outside this model.
  The \<^verbatim>\<open>print\<close> of the iteration log is not modelled.

  The two paths call the tool manager's one method in two ways: the state machine as
  \<^verbatim>\<open>execute_tool(name, input)\<close>, with the input as one positional mapping, the single-shot
  path as \<^verbatim>\<open>execute_tool(name, **input)\<close>, with the input spread into keyword arguments.
  These are different calls of the same object, so the tool manager is a function of the
  way it is called, and nothing makes its two answers agree. Either call is taken to
  return: a method whose signature accepts only one of the two raises \<^verbatim>\<open>TypeError\<close> on
  the other, an exception of the collaborator.
\<close>

datatype call_args =
  PositionalDict tool_input
| KeywordArgs tool_input

datatype event =
  ModelCall api_params response
| ToolCall string tool_input string
| ClockRead string

record env =
  self_model :: string
  messages_create :: "event list \<Rightarrow> api_params \<Rightarrow> response"
  now_isoformat :: "event list \<Rightarrow> string"

type_synonym tool_manager = "event list \<Rightarrow> string \<Rightarrow> call_args \<Rightarrow> string"

section \<open>The system prompt\<close>

text \<open>
  \<^verbatim>\<open>AIGenerator.SYSTEM_PROMPT\<close>, byte for byte; its one non-ASCII character, an em dash, is
  the three bytes of its UTF-8 encoding.
\<close>

definition SYSTEM_PROMPT :: string where
  \<open>SYSTEM_PROMPT =
   '' You are an AI assistant specialized in course materials and educational content with access to tools for searching course content and retrieving course outlines.\<newline>'' @
   ''\<newline>'' @
   ''Tool Usage:\<newline>'' @
   ''- **Course Outline Tool**: Use for questions about course structure, curriculum, lesson list, or "what lessons are in [course]"\<newline>'' @
   ''  - Returns: Course title, course link, and complete list of lessons with numbers and titles\<newline>'' @
   ''  - Always present the full outline when retrieved, including the course link and all lesson details\<newline>'' @
   ''\<newline>'' @
   ''- **Search Content Tool**: Use for questions about specific course content or detailed educational materials\<newline>'' @
   ''  - **One search per query maximum**\<newline>'' @
   ''  - Synthesize search results into accurate, fact-based responses\<newline>'' @
   ''  - If search yields no results, state this clearly without offering alternatives\<newline>'' @
   ''\<newline>'' @
   ''Response Protocol:\<newline>'' @
   ''- **General knowledge questions**: Answer using existing knowledge without searching\<newline>'' @
   ''- **Course outline/structure questions**: Use the outline tool to retrieve course details\<newline>'' @
   ''- **Course-specific content questions**: Search first, then answer\<newline>'' @
   ''- **No meta-commentary**:\<newline>'' @
   '' - Provide direct answers only '' @ [CHR 0xE2, CHR 0x80, CHR 0x94] @ '' no reasoning process, search explanations, or question-type analysis\<newline>'' @
   '' - Do not mention "based on the search results" or "using the outline tool"\<newline>'' @
   ''\<newline>'' @
   ''\<newline>'' @
   ''All responses must be:\<newline>'' @
   ''1. **Brief, Concise and focused** - Get to the point quickly\<newline>'' @
   ''2. **Educational** - Maintain instructional value\<newline>'' @
   ''3. **Clear** - Use accessible language\<newline>'' @
   ''4. **Example-supported** - Include relevant examples when they aid understanding\<newline>'' @
   ''Provide only the direct answer to what was asked.\<newline>''\<close>

text \<open>
  The conditional expression that both entry points evaluate first. A Python string is
  truthy when it is not empty, so an empty history is treated like no history.
\<close>

definition system_content :: "string option \<Rightarrow> string" where
  "system_content conversation_history =
     (case conversation_history of
        None \<Rightarrow> SYSTEM_PROMPT
      | Some h \<Rightarrow>
          if h \<noteq> [] then SYSTEM_PROMPT @ ''\<newline>\<newline>Previous conversation:\<newline>'' @ h
          else SYSTEM_PROMPT)"

section \<open>Requests\<close>

text \<open>
  \<^verbatim>\<open>{**self.base_params, "messages": ..., "system": ...}\<close>, with \<^verbatim>\<open>tools\<close> and
  \<^verbatim>\<open>tool_choice\<close> added under \<^verbatim>\<open>if tools:\<close> (a list is truthy when it is not empty).
\<close>

definition build_api_params ::
  "env \<Rightarrow> message list \<Rightarrow> string \<Rightarrow> tool_decl list option \<Rightarrow> api_params" where
  "build_api_params E msgs sys tools =
     \<lparr>p_model = self_model E, p_temperature = 0, p_max_tokens = 800,
      p_messages = msgs, p_system = sys,
      p_tools = (case tools of None \<Rightarrow> None | Some ts \<Rightarrow> if ts \<noteq> [] then Some ts else None),
      p_tool_choice =
        (case tools of None \<Rightarrow> None | Some ts \<Rightarrow> if ts \<noteq> [] then Some ''auto'' else None)\<rparr>"

section \<open>The Conversation Context\<close>

text \<open>\<^verbatim>\<open>ConversationContext.add_tool_call\<close>: one clock read, then the count and the log.\<close>

definition add_tool_call ::
  "env \<Rightarrow> ConversationContext \<Rightarrow> string \<Rightarrow> tool_input \<Rightarrow> string \<Rightarrow> event list
     \<Rightarrow> ConversationContext \<times> event list" where
  "add_tool_call E ctx name inp res tr =
     (let n = tool_call_count ctx + 1;
          ts = now_isoformat E tr
      in (ctx\<lparr>tool_call_count := n,
               tool_call_history := tool_call_history ctx @
                 [\<lparr>tc_index = n, tc_tool_name = name, tc_input = inp, tc_result = res,
                   tc_timestamp = ts\<rparr>]\<rparr>,
          tr @ [ClockRead ts]))"

section \<open>The state handlers\<close>

text \<open>
  The loop \<^verbatim>\<open>for content_block in response.content: if hasattr(content_block, 'text'): ...; break\<close>
  that the handlers run to extract a final or partial text: the text of the first
  text-bearing block, \<^verbatim>\<open>None\<close> when there is none.
\<close>

fun first_text :: "content_block list \<Rightarrow> string option" where
  "first_text [] = None"
| "first_text (TextBlock t # bs) = Some t"
| "first_text (b # bs) = first_text bs"

text \<open>\<^verbatim>\<open>hasattr(content_block, 'text')\<close>.\<close>

fun text_bearing :: "content_block \<Rightarrow> bool" where
  "text_bearing (TextBlock t) = True"
| "text_bearing b = False"

fun py_of_text :: "string option \<Rightarrow> py_value" where
  "py_of_text None = PyNone"
| "py_of_text (Some t) = PyStr t"

text \<open>\<^verbatim>\<open>_handle_initial_state\<close>: one model call.\<close>

definition handle_initial_state ::
  "env \<Rightarrow> ConversationContext \<Rightarrow> tool_decl list option \<Rightarrow> event list
     \<Rightarrow> StateTransition \<times> ConversationContext \<times> event list" where
  "handle_initial_state E ctx tools tr =
     (let api = build_api_params E (messages ctx) (system_prompt ctx) tools;
          resp = messages_create E tr api
      in (\<lparr>from_state = INITIAL, to_state = AWAITING_TOOL_DECISION,
           trigger = ''api_call_complete'', data = [(''response'', PyResponse resp)]\<rparr>,
          ctx, tr @ [ModelCall api resp]))"

text \<open>\<^verbatim>\<open>_handle_tool_decision_state\<close>: the four-way branch on the stop reason.\<close>

definition handle_tool_decision_state ::
  "response \<Rightarrow> ConversationContext \<Rightarrow> event list
     \<Rightarrow> StateTransition \<times> ConversationContext \<times> event list" where
  "handle_tool_decision_state resp ctx tr =
     (if stop_reason resp = ''tool_use'' then
        (\<lparr>from_state = AWAITING_TOOL_DECISION, to_state = EXECUTING_TOOLS,
          trigger = ''tool_use'',
          data = [(''response'', PyResponse resp), (''tool_blocks'', PyBlocks (content resp))]\<rparr>,
         ctx\<lparr>messages := messages ctx @
               [\<lparr>role = ''assistant'', m_content = BlockContent (content resp)\<rparr>]\<rparr>,
         tr)
      else if stop_reason resp = ''end_turn'' then
        (\<lparr>from_state = AWAITING_TOOL_DECISION, to_state = COMPLETED,
          trigger = ''end_turn'',
          data = [(''final_text'', py_of_text (first_text (content resp))),
                  (''response'', PyResponse resp)]\<rparr>,
         ctx, tr)
      else if stop_reason resp = ''max_tokens'' then
        (\<lparr>from_state = AWAITING_TOOL_DECISION, to_state = ERROR,
          trigger = ''max_tokens'',
          data = [(''error'', PyStr ''Token limit reached''),
                  (''partial_text'', py_of_text (first_text (content resp)))]\<rparr>,
         ctx, tr)
      else
        (\<lparr>from_state = AWAITING_TOOL_DECISION, to_state = ERROR,
          trigger = ''unknown_stop_reason'',
          data = [(''error'', PyStr (''Unexpected stop_reason: '' @ stop_reason resp))]\<rparr>,
         ctx, tr))"

text \<open>
  \<^verbatim>\<open>_execute_tool_async\<close>: one call of the tool manager, off the event loop, as
  \<^verbatim>\<open>execute_tool(tool_block.name, tool_block.input)\<close>. Reading
  \<^verbatim>\<open>tool_manager.execute_tool\<close> raises \<^verbatim>\<open>AttributeError\<close> when the caller passed no tool
  manager (the parameter's default is \<^verbatim>\<open>None\<close>).
\<close>

definition execute_tool_async ::
  "tool_manager option \<Rightarrow> event list \<Rightarrow> string \<Rightarrow> tool_input \<Rightarrow> py_error + string" where
  [simp]: "execute_tool_async tm tr name inp =
     (case tm of
        None \<Rightarrow> Inl AttributeError
      | Some f \<Rightarrow> Inr (f tr name (PositionalDict inp)))"

text \<open>
  The \<^verbatim>\<open>for\<close> loop of \<^verbatim>\<open>_handle_tool_execution_state\<close>, with its accumulators: the
  results so far, the context and the trace.
\<close>

fun execute_tool_blocks ::
  "env \<Rightarrow> tool_manager option \<Rightarrow> content_block list
     \<Rightarrow> tool_result list \<times> ConversationContext \<times> event list
     \<Rightarrow> py_error + tool_result list \<times> ConversationContext \<times> event list" where
  "execute_tool_blocks E tm [] acc = Inr acc"
| "execute_tool_blocks E tm (ToolUseBlock bid name inp # bs) (results, ctx, tr) =
     (case execute_tool_async tm tr name inp of
        Inl e \<Rightarrow> Inl e
      | Inr res \<Rightarrow>
          (let (ctx', tr') = add_tool_call E ctx name inp res (tr @ [ToolCall name inp res])
           in execute_tool_blocks E tm bs
                (results @ [\<lparr>tr_type = ''tool_result'', tr_tool_use_id = bid, tr_content = res\<rparr>],
                 ctx', tr')))"
| "execute_tool_blocks E tm (b # bs) acc = execute_tool_blocks E tm bs acc"

text \<open>\<^verbatim>\<open>_handle_tool_execution_state\<close>.\<close>

definition handle_tool_execution_state ::
  "env \<Rightarrow> content_block list \<Rightarrow> ConversationContext \<Rightarrow> tool_manager option \<Rightarrow> event list
     \<Rightarrow> py_error + StateTransition \<times> ConversationContext \<times> event list" where
  "handle_tool_execution_state E tool_blocks ctx tm tr =
     (case execute_tool_blocks E tm tool_blocks ([], ctx, tr) of
        Inl e \<Rightarrow> Inl e
      | Inr (tool_results, ctx', tr') \<Rightarrow>
          Inr (\<lparr>from_state = EXECUTING_TOOLS, to_state = AWAITING_FOLLOW_UP,
                trigger = ''tools_executed'',
                data = [(''tool_results'', PyResults tool_results)]\<rparr>,
               (if tool_results \<noteq> [] then
                  ctx'\<lparr>messages := messages ctx' @
                         [\<lparr>role = ''user'', m_content = ResultContent tool_results\<rparr>]\<rparr>
                else ctx'),
               tr'))"

text \<open>\<^verbatim>\<open>_handle_follow_up_state\<close>: one model call, then the same four-way branch.\<close>

definition handle_follow_up_state ::
  "env \<Rightarrow> ConversationContext \<Rightarrow> tool_decl list option \<Rightarrow> event list
     \<Rightarrow> StateTransition \<times> ConversationContext \<times> event list" where
  "handle_follow_up_state E ctx tools tr =
     (let api = build_api_params E (messages ctx) (system_prompt ctx) tools;
          resp = messages_create E tr api;
          tr' = tr @ [ModelCall api resp]
      in if stop_reason resp = ''tool_use'' then
           (\<lparr>from_state = AWAITING_FOLLOW_UP, to_state = EXECUTING_TOOLS,
             trigger = ''tool_use'',
             data = [(''response'', PyResponse resp), (''tool_blocks'', PyBlocks (content resp))]\<rparr>,
            ctx\<lparr>messages := messages ctx @
                  [\<lparr>role = ''assistant'', m_content = BlockContent (content resp)\<rparr>]\<rparr>,
            tr')
         else if stop_reason resp = ''end_turn'' then
           (\<lparr>from_state = AWAITING_FOLLOW_UP, to_state = COMPLETED,
             trigger = ''end_turn'',
             data = [(''final_text'', py_of_text (first_text (content resp))),
                     (''response'', PyResponse resp)]\<rparr>,
            ctx, tr')
         else if stop_reason resp = ''max_tokens'' then
           (\<lparr>from_state = AWAITING_FOLLOW_UP, to_state = ERROR,
             trigger = ''max_tokens'',
             data = [(''error'', PyStr ''Token limit reached''),
                     (''partial_text'', py_of_text (first_text (content resp)))]\<rparr>,
            ctx, tr')
         else
           (\<lparr>from_state = AWAITING_FOLLOW_UP, to_state = ERROR,
             trigger = ''unknown_stop_reason'',
             data = [(''error'', PyStr (''Unexpected stop_reason: '' @ stop_reason resp))]\<rparr>,
            ctx, tr'))"

text \<open>
  \<^verbatim>\<open>_dispatch_state\<close>. A missing \<^verbatim>\<open>last_response\<close> makes the decision handler fail on
  \<^verbatim>\<open>response.stop_reason\<close>, and gives the execution handler the empty list.
\<close>

definition dispatch_state ::
  "env \<Rightarrow> ConversationState \<Rightarrow> ConversationContext \<Rightarrow> tool_decl list option
     \<Rightarrow> tool_manager option \<Rightarrow> response option \<Rightarrow> event list
     \<Rightarrow> py_error + StateTransition \<times> ConversationContext \<times> event list" where
  "dispatch_state E state ctx tools tm last_resp tr =
     (case state of
        INITIAL \<Rightarrow> Inr (handle_initial_state E ctx tools tr)
      | AWAITING_TOOL_DECISION \<Rightarrow>
          (case last_resp of
             None \<Rightarrow> Inl AttributeError
           | Some r \<Rightarrow> Inr (handle_tool_decision_state r ctx tr))
      | EXECUTING_TOOLS \<Rightarrow>
          handle_tool_execution_state E
            (case last_resp of None \<Rightarrow> [] | Some r \<Rightarrow> content r) ctx tm tr
      | AWAITING_FOLLOW_UP \<Rightarrow> Inr (handle_follow_up_state E ctx tools tr)
      | COMPLETED \<Rightarrow> Inl ValueError
      | ERROR \<Rightarrow> Inl ValueError)"

section \<open>The driving loop of \<^verbatim>\<open>generate_response_stream\<close>\<close>

text \<open>The loop's local variables, the context and the trace of the interactions so far.\<close>

record loop_state =
  ls_state :: ConversationState
  ls_iteration :: int
  ls_last_response :: "response option"
  ls_context :: ConversationContext
  ls_trace :: "event list"

text \<open>
  One pass through the body of the \<^verbatim>\<open>while\<close> loop: the counter, the dispatch, the yielded
  transition, and whether the body leaves the loop by \<^verbatim>\<open>break\<close>. The \<^verbatim>\<open>break\<close> comes
  before \<^verbatim>\<open>current_state\<close> is assigned, so a pass that breaks keeps the state it
  dispatched. Every handler stores a response object under \<^verbatim>\<open>"response"\<close>, so that is the
  only kind of value \<^verbatim>\<open>last_response\<close> takes.
\<close>

definition loop_body ::
  "env \<Rightarrow> tool_decl list option \<Rightarrow> tool_manager option \<Rightarrow> loop_state
     \<Rightarrow> py_error + StateTransition \<times> bool \<times> loop_state" where
  "loop_body E tools tm s =
     (case dispatch_state E (ls_state s) (ls_context s) tools tm (ls_last_response s)
             (ls_trace s) of
        Inl e \<Rightarrow> Inl e
      | Inr (transition, ctx, tr) \<Rightarrow>
          (let s1 = s\<lparr>ls_iteration := ls_iteration s + 1, ls_context := ctx, ls_trace := tr\<rparr>
           in if to_state transition \<in> {COMPLETED, ERROR} then Inr (transition, True, s1)
              else Inr (transition, False,
                     s1\<lparr>ls_state := to_state transition,
                        ls_last_response :=
                          (case map_of (data transition) ''response'' of
                             Some (PyResponse r) \<Rightarrow> Some r
                           | _ \<Rightarrow> ls_last_response s)\<rparr>)))"

text \<open>
  The \<^verbatim>\<open>while\<close> loop: the transitions it yields, and either the exception that ended the
  run or the state in which the loop was left.
\<close>

function stream_loop ::
  "env \<Rightarrow> tool_decl list option \<Rightarrow> tool_manager option \<Rightarrow> int \<Rightarrow> loop_state
     \<Rightarrow> StateTransition list \<times> (py_error + loop_state)" where
  "stream_loop E tools tm max_iterations s =
     (if ls_state s \<notin> {COMPLETED, ERROR} \<and> ls_iteration s < max_iterations then
        (case loop_body E tools tm s of
           Inl e \<Rightarrow> ([], Inl e)
         | Inr (transition, brk, s') \<Rightarrow>
             if brk then ([transition], Inr s')
             else (case stream_loop E tools tm max_iterations s' of
                     (ys, r) \<Rightarrow> (transition # ys, r)))
      else ([], Inr s))"
  by pat_completeness auto
termination
  by (relation "measure (\<lambda>(E, tools, tm, max_iterations, s). nat (max_iterations - ls_iteration s))")
    (auto simp: loop_body_def Let_def split: sum.splits prod.splits if_splits)

declare stream_loop.simps [simp del]

text \<open>
  The states a run passes through: \<open>visits E tools tm max_iterations s0 (brk, s)\<close> holds when
  the loop started in \<open>s0\<close> is in state \<open>s\<close> after some number of passes, \<open>brk\<close> telling
  whether the last pass left the loop by \<^verbatim>\<open>break\<close>. A pass that raises visits no new
  state.
\<close>

inductive visits ::
  "env \<Rightarrow> tool_decl list option \<Rightarrow> tool_manager option \<Rightarrow> int \<Rightarrow> loop_state
     \<Rightarrow> bool \<times> loop_state \<Rightarrow> bool"
  for E tools tm max_iterations s0 where
  start: "visits E tools tm max_iterations s0 (False, s0)"
| pass: "visits E tools tm max_iterations s0 (False, s) \<Longrightarrow>
         ls_state s \<notin> {COMPLETED, ERROR} \<Longrightarrow> ls_iteration s < max_iterations \<Longrightarrow>
         loop_body E tools tm s = Inr (transition, brk, s') \<Longrightarrow>
         visits E tools tm max_iterations s0 (brk, s')"

text \<open>
  The loop states from which a model that always asks for tools keeps the loop going:
  any non-terminal state, the decision state holding a response that asks for tools.
\<close>

definition keeps_going :: "loop_state \<Rightarrow> bool" where
  "keeps_going s \<longleftrightarrow>
     ls_state s = INITIAL \<or> ls_state s = EXECUTING_TOOLS \<or> ls_state s = AWAITING_FOLLOW_UP \<or>
     (ls_state s = AWAITING_TOOL_DECISION \<and>
      (case ls_last_response s of None \<Rightarrow> False | Some r \<Rightarrow> stop_reason r = ''tool_use''))"

text \<open>Python's \<^verbatim>\<open>str\<close> of an integer, for the f-string of the last transition.\<close>

function str_nat :: "nat \<Rightarrow> string" where
  "str_nat n =
     (if n < 10 then [''0123456789'' ! n]
      else str_nat (n div 10) @ [''0123456789'' ! (n mod 10)])"
  by pat_completeness auto
termination
  by (relation "measure (\<lambda>n. n)") auto

declare str_nat.simps [simp del]

definition str_int :: "int \<Rightarrow> string" where
  "str_int i = (if i < 0 then ''-'' @ str_nat (nat (- i)) else str_nat (nat i))"

text \<open>The context that \<^verbatim>\<open>generate_response_stream\<close> creates, and the loop's first state.\<close>

definition initial_context :: "string \<Rightarrow> string option \<Rightarrow> ConversationContext" where
  "initial_context query conversation_history =
     \<lparr>messages = [\<lparr>role = ''user'', m_content = StrContent query\<rparr>],
      system_prompt = system_content conversation_history,
      tool_call_count = 0, tool_call_history = [],
      intermediate_responses = [], metadata = []\<rparr>"

definition initial_loop_state :: "string \<Rightarrow> string option \<Rightarrow> loop_state" where
  "initial_loop_state query conversation_history =
     \<lparr>ls_state = INITIAL, ls_iteration = 0, ls_last_response = None,
      ls_context = initial_context query conversation_history, ls_trace = []\<rparr>"

text \<open>
  \<^verbatim>\<open>generate_response_stream\<close>: the transitions the generator yields, in order, and how
  the run ended (the exception, or the final loop state). After the loop comes the
  check that synthesizes the \<^verbatim>\<open>max_iterations_exceeded\<close> transition.
\<close>

definition generate_response_stream ::
  "env \<Rightarrow> string \<Rightarrow> string option \<Rightarrow> tool_decl list option \<Rightarrow> tool_manager option \<Rightarrow> int
     \<Rightarrow> StateTransition list \<times> (py_error + loop_state)" where
  "generate_response_stream E query conversation_history tools tm max_iterations =
     (case stream_loop E tools tm max_iterations
             (initial_loop_state query conversation_history) of
        (ys, Inl e) \<Rightarrow> (ys, Inl e)
      | (ys, Inr s) \<Rightarrow>
          if ls_iteration s \<ge> max_iterations \<and> ls_state s \<notin> {COMPLETED, ERROR} then
            (ys @ [\<lparr>from_state = ls_state s, to_state = ERROR,
                     trigger = ''max_iterations_exceeded'',
                     data = [(''error'', PyStr (''Exceeded '' @ str_int max_iterations @
                                '' iterations without completion''))]\<rparr>],
             Inr s)
          else (ys, Inr s))"

section \<open>The single-shot path: \<^verbatim>\<open>generate_response\<close>\<close>

text \<open>\<^verbatim>\<open>response.content[0].text\<close>, with the two ways it raises.\<close>

definition content0_text :: "response \<Rightarrow> py_error + string" where
  "content0_text resp =
     (case content resp of
        [] \<Rightarrow> Inl IndexError
      | TextBlock t # bs \<Rightarrow> Inr t
      | b # bs \<Rightarrow> Inl AttributeError)"

text \<open>
  The \<^verbatim>\<open>for\<close> loop of \<^verbatim>\<open>_handle_tool_execution\<close>; here a tool manager is at hand, and
  it is called as \<^verbatim>\<open>execute_tool(content_block.name, **content_block.input)\<close>.
\<close>

fun collect_tool_results ::
  "tool_manager \<Rightarrow> content_block list \<Rightarrow> tool_result list \<times> event list
     \<Rightarrow> tool_result list \<times> event list" where
  "collect_tool_results f [] acc = acc"
| "collect_tool_results f (ToolUseBlock bid name inp # bs) (results, tr) =
     (let res = f tr name (KeywordArgs inp)
      in collect_tool_results f bs
           (results @ [\<lparr>tr_type = ''tool_result'', tr_tool_use_id = bid, tr_content = res\<rparr>],
            tr @ [ToolCall name inp res]))"
| "collect_tool_results f (b # bs) acc = collect_tool_results f bs acc"

text \<open>\<^verbatim>\<open>_handle_tool_execution\<close>: the final call carries no tool declarations.\<close>

definition handle_tool_execution ::
  "env \<Rightarrow> response \<Rightarrow> api_params \<Rightarrow> tool_manager \<Rightarrow> event list
     \<Rightarrow> (py_error + string) \<times> event list" where
  "handle_tool_execution E initial_response base tm tr =
     (let msgs = p_messages base @
                   [\<lparr>role = ''assistant'', m_content = BlockContent (content initial_response)\<rparr>];
          (tool_results, tr1) = collect_tool_results tm (content initial_response) ([], tr);
          msgs' = (if tool_results \<noteq> [] then
                     msgs @ [\<lparr>role = ''user'', m_content = ResultContent tool_results\<rparr>]
                   else msgs);
          final_params = build_api_params E msgs' (p_system base) None;
          final_response = messages_create E tr1 final_params
      in (content0_text final_response, tr1 @ [ModelCall final_params final_response]))"

text \<open>\<^verbatim>\<open>generate_response\<close>: the answer or the exception, and the trace of the call.\<close>

definition generate_response ::
  "env \<Rightarrow> string \<Rightarrow> string option \<Rightarrow> tool_decl list option \<Rightarrow> tool_manager option
     \<Rightarrow> (py_error + string) \<times> event list" where
  "generate_response E query conversation_history tools tm =
     (let api = build_api_params E [\<lparr>role = ''user'', m_content = StrContent query\<rparr>]
                  (system_content conversation_history) tools;
          resp = messages_create E [] api;
          tr = [ModelCall api resp]
      in case tm of
           Some f \<Rightarrow>
             if stop_reason resp = ''tool_use'' then handle_tool_execution E resp api f tr
             else (content0_text resp, tr)
         | None \<Rightarrow> (content0_text resp, tr))"

section \<open>Reading blocks and traces\<close>

text \<open>
  The tool-invocation blocks of a response content, in order, each as its correlation
  identifier, tool name and input.
\<close>

fun tool_uses :: "content_block list \<Rightarrow> (string \<times> string \<times> tool_input) list" where
  "tool_uses [] = []"
| "tool_uses (ToolUseBlock bid name inp # bs) = (bid, name, inp) # tool_uses bs"
| "tool_uses (b # bs) = tool_uses bs"

text \<open>The calls of the tool executor in a trace, in order: name, input and result.\<close>

fun tool_calls_of :: "event list \<Rightarrow> (string \<times> tool_input \<times> string) list" where
  "tool_calls_of [] = []"
| "tool_calls_of (ToolCall name inp res # es) = (name, inp, res) # tool_calls_of es"
| "tool_calls_of (e # es) = tool_calls_of es"

text \<open>The clock readings in a trace, in order.\<close>

fun clock_reads_of :: "event list \<Rightarrow> string list" where
  "clock_reads_of [] = []"
| "clock_reads_of (ClockRead ts # es) = ts # clock_reads_of es"
| "clock_reads_of (e # es) = clock_reads_of es"

text \<open>The requests sent to the model service in a trace, in order.\<close>

fun model_calls_of :: "event list \<Rightarrow> (api_params \<times> response) list" where
  "model_calls_of [] = []"
| "model_calls_of (ModelCall p r # es) = (p, r) # model_calls_of es"
| "model_calls_of (e # es) = model_calls_of es"


section \<open>Concrete collaborators\<close>

text \<open>
  A model service that plays a script: its k-th call returns the k-th response of the
  list, and an empty natural completion once the script is over. The clock of this
  environment always reads the same instant.
\<close>

definition scripted_env :: "response list \<Rightarrow> env" where
  "scripted_env script =
     \<lparr>self_model = ''model'',
      messages_create = (\<lambda>tr p.
        let k = length (model_calls_of tr)
        in if k < length script then script ! k
           else \<lparr>stop_reason = ''end_turn'', content = []\<rparr>),
      now_isoformat = (\<lambda>tr. ''2024-01-01T00:00:00'')\<rparr>"

text \<open>A model service that gives every request the same response.\<close>

definition const_env :: "response \<Rightarrow> env" where
  "const_env resp =
     \<lparr>self_model = ''model'',
      messages_create = (\<lambda>tr p. resp),
      now_isoformat = (\<lambda>tr. ''2024-01-01T00:00:00'')\<rparr>"

text \<open>
  A model service that looks at the tool declarations: it asks for the tool \<^verbatim>\<open>search\<close>
  first, and then answers \<^verbatim>\<open>with tools\<close> to a request that declares tools and
  \<^verbatim>\<open>without tools\<close> to one that does not.
\<close>

definition tool_aware_env :: env where
  "tool_aware_env =
     \<lparr>self_model = ''model'',
      messages_create = (\<lambda>tr p.
        if filter (\<lambda>m. role m = ''assistant'') (p_messages p) = [] then
          \<lparr>stop_reason = ''tool_use'',
           content = [ToolUseBlock ''toolu_1'' ''search'' [(''q'', ''x'')]]\<rparr>
        else if p_tools p = None then
          \<lparr>stop_reason = ''end_turn'', content = [TextBlock ''without tools'']\<rparr>
        else \<lparr>stop_reason = ''end_turn'', content = [TextBlock ''with tools'']\<rparr>),
      now_isoformat = (\<lambda>tr. ''2024-01-01T00:00:00'')\<rparr>"

text \<open>A tool manager whose every tool returns the same result.\<close>

definition const_tools :: "string \<Rightarrow> tool_manager" where
  "const_tools res = (\<lambda>tr name args. res)"

text \<open>
  A tool manager with memory: every tool returns the number of tool calls made before it.
\<close>

definition counting_tools :: tool_manager where
  "counting_tools = (\<lambda>tr name args. str_nat (length (tool_calls_of tr)))"

text \<open>A tool manager whose result tells how it was called.\<close>

definition form_tools :: tool_manager where
  "form_tools =
     (\<lambda>tr name args.
        case args of PositionalDict inp \<Rightarrow> ''positional'' | KeywordArgs inp \<Rightarrow> ''keywords'')"

text \<open>
  A model service that asks for the tool \<^verbatim>\<open>search\<close> until the last message of the request
  is a tool-result turn, and then answers with the results it was given.
\<close>

definition echo_env :: env where
  "echo_env =
     \<lparr>self_model = ''model'',
      messages_create = (\<lambda>tr p.
        case m_content (last (p_messages p)) of
          ResultContent rs \<Rightarrow>
            \<lparr>stop_reason = ''end_turn'', content = [TextBlock (concat (map tr_content rs))]\<rparr>
        | _ \<Rightarrow>
            \<lparr>stop_reason = ''tool_use'',
             content = [ToolUseBlock ''toolu_1'' ''search'' [(''q'', ''x'')]]\<rparr>),
      now_isoformat = (\<lambda>tr. ''2024-01-01T00:00:00'')\<rparr>"

text \<open>
  A run with one tool round: the model first asks for the tool \<^verbatim>\<open>search\<close> with input
  \<^verbatim>\<open>{q: "x"}\<close>, then answers.
\<close>

definition one_round_script :: "response list" where
  "one_round_script =
     [\<lparr>stop_reason = ''tool_use'',
       content = [ToolUseBlock ''toolu_1'' ''search'' [(''q'', ''x'')]]\<rparr>,
      \<lparr>stop_reason = ''end_turn'', content = [TextBlock ''Answer: result-x'']\<rparr>]"

section \<open>Unfolding a run\<close>

lemmas run_defs =
  generate_response_stream_def initial_loop_state_def initial_context_def
  loop_body_def dispatch_state_def handle_initial_state_def handle_tool_decision_state_def
  handle_follow_up_state_def handle_tool_execution_state_def build_api_params_def
  scripted_env_def const_env_def tool_aware_env_def echo_env_def const_tools_def counting_tools_def
  form_tools_def
  one_round_script_def
  add_tool_call_def Let_def

lemma first_text_Some:
  "bs = pre @ TextBlock x # post \<Longrightarrow> \<forall>b\<in>set pre. \<not> text_bearing b
     \<Longrightarrow> first_text bs = Some x"
proof (induction pre arbitrary: bs)
  case Nil
  then show ?case by simp
next
  case (Cons b pre)
  then show ?case by (cases b) auto
qed

lemma first_text_None:
  "\<forall>b\<in>set bs. \<not> text_bearing b \<Longrightarrow> first_text bs = None"
proof (induction bs)
  case Nil
  then show ?case by simp
next
  case (Cons b bs)
  then show ?case by (cases b) auto
qed

section \<open>The tool loop\<close>

lemma tool_calls_of_append: "tool_calls_of (xs @ ys) = tool_calls_of xs @ tool_calls_of ys"
  by (induction xs rule: tool_calls_of.induct) auto

lemma clock_reads_of_append: "clock_reads_of (xs @ ys) = clock_reads_of xs @ clock_reads_of ys"
  by (induction xs rule: clock_reads_of.induct) auto

lemma model_calls_of_append: "model_calls_of (xs @ ys) = model_calls_of xs @ model_calls_of ys"
  by (induction xs rule: model_calls_of.induct) auto

lemma execute_tool_blocks_no_tools:
  "tool_uses bs = [] \<Longrightarrow> execute_tool_blocks E tm bs acc = Inr acc"
proof (induction bs)
  case Nil
  then show ?case by simp
next
  case (Cons b bs)
  then show ?case by (cases b) (auto split: prod.splits)
qed

lemma execute_tool_blocks_None:
  "tool_uses bs \<noteq> [] \<Longrightarrow> execute_tool_blocks E None bs acc = Inl AttributeError"
proof (induction bs)
  case Nil
  then show ?case by simp
next
  case (Cons b bs)
  then show ?case by (cases b; cases acc) auto
qed

lemma execute_tool_blocks_Some:
  "\<exists>new_results new_calls new_events.
     execute_tool_blocks E (Some f) bs (results, ctx, tr) =
       Inr (results @ new_results,
            ctx\<lparr>tool_call_count := tool_call_count ctx + int (length new_calls),
                 tool_call_history := tool_call_history ctx @ new_calls\<rparr>,
            tr @ new_events) \<and>
     map tc_index new_calls =
       [tool_call_count ctx + 1 .. tool_call_count ctx + int (length (tool_uses bs))] \<and>
     map (\<lambda>c. (tc_tool_name c, tc_input c)) new_calls = map snd (tool_uses bs) \<and>
     map (\<lambda>c. (tc_tool_name c, tc_input c, tc_result c)) new_calls = tool_calls_of new_events \<and>
     map tc_timestamp new_calls = clock_reads_of new_events \<and>
     model_calls_of new_events = [] \<and>
     map tr_tool_use_id new_results = map fst (tool_uses bs) \<and>
     map tr_content new_results = map tc_result new_calls \<and>
     (\<forall>r\<in>set new_results. tr_type r = ''tool_result'')"
proof (induction bs arbitrary: results ctx tr)
  case Nil
  show ?case
    by (rule exI [of _ "[]"], rule exI [of _ "[]"], rule exI [of _ "[]"]) simp
next
  case (Cons b bs)
  show ?case
  proof (cases b)
    case (TextBlock t)
    with Cons [of results ctx tr] show ?thesis by simp
  next
    case OtherBlock
    with Cons [of results ctx tr] show ?thesis by simp
  next
    case (ToolUseBlock bid name inp)
    define res where "res = f tr name (PositionalDict inp)"
    define ts where "ts = now_isoformat E (tr @ [ToolCall name inp res])"
    define c where "c = \<lparr>tc_index = tool_call_count ctx + 1, tc_tool_name = name,
      tc_input = inp, tc_result = res, tc_timestamp = ts\<rparr>"
    define r where "r = \<lparr>tr_type = ''tool_result'', tr_tool_use_id = bid, tr_content = res\<rparr>"
    define ctx1 where "ctx1 = ctx\<lparr>tool_call_count := tool_call_count ctx + 1,
      tool_call_history := tool_call_history ctx @ [c]\<rparr>"
    define tr1 where "tr1 = tr @ [ToolCall name inp res, ClockRead ts]"
    have step: "execute_tool_blocks E (Some f) (b # bs) (results, ctx, tr) =
        execute_tool_blocks E (Some f) bs (results @ [r], ctx1, tr1)"
      by (simp add: ToolUseBlock add_tool_call_def Let_def res_def ts_def c_def r_def
          ctx1_def tr1_def)
    from Cons [of "results @ [r]" ctx1 tr1]
    obtain nr nc ne where
      run: "execute_tool_blocks E (Some f) bs (results @ [r], ctx1, tr1) =
         Inr ((results @ [r]) @ nr,
              ctx1\<lparr>tool_call_count := tool_call_count ctx1 + int (length nc),
                    tool_call_history := tool_call_history ctx1 @ nc\<rparr>,
              tr1 @ ne)"
      and idx: "map tc_index nc =
         [tool_call_count ctx1 + 1 .. tool_call_count ctx1 + int (length (tool_uses bs))]"
      and names: "map (\<lambda>c. (tc_tool_name c, tc_input c)) nc = map snd (tool_uses bs)"
      and calls: "map (\<lambda>c. (tc_tool_name c, tc_input c, tc_result c)) nc = tool_calls_of ne"
      and clocks: "map tc_timestamp nc = clock_reads_of ne"
      and nomodel: "model_calls_of ne = []"
      and ids: "map tr_tool_use_id nr = map fst (tool_uses bs)"
      and conts: "map tr_content nr = map tc_result nc"
      and types: "\<forall>r\<in>set nr. tr_type r = ''tool_result''"
      by blast
    have upto: "[tool_call_count ctx + 1 .. tool_call_count ctx + int (length (tool_uses (b # bs)))]
        = (tool_call_count ctx + 1) #
          [tool_call_count ctx1 + 1 .. tool_call_count ctx1 + int (length (tool_uses bs))]"
      by (simp add: ToolUseBlock ctx1_def upto_rec1 algebra_simps)
    show ?thesis
    proof (intro exI conjI)
      show "execute_tool_blocks E (Some f) (b # bs) (results, ctx, tr) =
        Inr (results @ (r # nr),
            ctx\<lparr>tool_call_count := tool_call_count ctx + int (length (c # nc)),
                 tool_call_history := tool_call_history ctx @ (c # nc)\<rparr>,
            tr @ (ToolCall name inp res # ClockRead ts # ne))"
        by (simp only: step run) (simp add: ctx1_def tr1_def)
      show "map tc_index (c # nc) =
        [tool_call_count ctx + 1 .. tool_call_count ctx + int (length (tool_uses (b # bs)))]"
        by (simp only: upto list.map idx) (simp add: c_def)
      show "map (\<lambda>c. (tc_tool_name c, tc_input c)) (c # nc) = map snd (tool_uses (b # bs))"
        by (simp add: names ToolUseBlock c_def)
      show "map (\<lambda>c. (tc_tool_name c, tc_input c, tc_result c)) (c # nc) =
        tool_calls_of (ToolCall name inp res # ClockRead ts # ne)"
        by (simp add: calls c_def)
      show "map tc_timestamp (c # nc) = clock_reads_of (ToolCall name inp res # ClockRead ts # ne)"
        by (simp add: clocks c_def)
      show "model_calls_of (ToolCall name inp res # ClockRead ts # ne) = []"
        by (simp add: nomodel)
      show "map tr_tool_use_id (r # nr) = map fst (tool_uses (b # bs))"
        by (simp add: ids ToolUseBlock r_def)
      show "map tr_content (r # nr) = map tc_result (c # nc)"
        by (simp add: conts r_def c_def)
      show "\<forall>r\<in>set (r # nr). tr_type r = ''tool_result''"
        using types by (simp add: r_def)
    qed
  qed
qed

section \<open>A terminal transition is not always the last one\<close>

text \<open>
  C1. The claim: once a transition to \<open>COMPLETED\<close> or \<open>ERROR\<close> has been yielded, no further
  transition is yielded. The code breaks it: the loop leaves by \<^verbatim>\<open>break\<close> before it
  assigns \<^verbatim>\<open>current_state\<close>, so the check after the loop still sees the state that was
  dispatched. With \<^verbatim>\<open>max_iterations = 2\<close>, no tools and a model that completes at once,
  the run reaches \<open>COMPLETED\<close> on its second and last permitted dispatch, and the
  generator then yields the synthesized \<^verbatim>\<open>max_iterations_exceeded\<close> transition after it.
\<close>

theorem completed_then_max_iterations_error:
  "map (\<lambda>t. (from_state t, to_state t, trigger t))
     (fst (generate_response_stream
        (scripted_env [\<lparr>stop_reason = ''end_turn'', content = [TextBlock ''4'']\<rparr>])
        ''What is 2+2?'' None None None 2))
   = [(INITIAL, AWAITING_TOOL_DECISION, ''api_call_complete''),
      (AWAITING_TOOL_DECISION, COMPLETED, ''end_turn''),
      (AWAITING_TOOL_DECISION, ERROR, ''max_iterations_exceeded'')]"
  by (simp add: run_defs stream_loop.simps)

section \<open>The loop, pass by pass\<close>

lemma stream_loop_stop:
  "\<not> (ls_state s \<notin> {COMPLETED, ERROR} \<and> ls_iteration s < mx) \<Longrightarrow>
     stream_loop E tools tm mx s = ([], Inr s)"
  by (subst stream_loop.simps) auto

lemma stream_loop_raise:
  "ls_state s \<notin> {COMPLETED, ERROR} \<Longrightarrow> ls_iteration s < mx \<Longrightarrow>
   loop_body E tools tm s = Inl e \<Longrightarrow> stream_loop E tools tm mx s = ([], Inl e)"
  by (subst stream_loop.simps) simp

lemma stream_loop_break:
  "ls_state s \<notin> {COMPLETED, ERROR} \<Longrightarrow> ls_iteration s < mx \<Longrightarrow>
   loop_body E tools tm s = Inr (t, True, s') \<Longrightarrow> stream_loop E tools tm mx s = ([t], Inr s')"
  by (subst stream_loop.simps) simp

lemma stream_loop_continue:
  "ls_state s \<notin> {COMPLETED, ERROR} \<Longrightarrow> ls_iteration s < mx \<Longrightarrow>
   loop_body E tools tm s = Inr (t, False, s') \<Longrightarrow>
   stream_loop E tools tm mx s =
     (t # fst (stream_loop E tools tm mx s'), snd (stream_loop E tools tm mx s'))"
  by (subst stream_loop.simps) (simp split: prod.splits)

lemma loop_body_iteration:
  "loop_body E tools tm s = Inr (t, brk, s') \<Longrightarrow> ls_iteration s' = ls_iteration s + 1"
  by (auto simp: loop_body_def Let_def split: sum.splits prod.splits if_splits)

lemma stream_loop_visits:
  "visits E tools tm mx s0 (False, s) \<Longrightarrow> stream_loop E tools tm mx s = (ys, Inr sf) \<Longrightarrow>
     \<exists>b. visits E tools tm mx s0 (b, sf)"
proof (induction "nat (mx - ls_iteration s)" arbitrary: s ys)
  case 0
  then have "stream_loop E tools tm mx s = ([], Inr s)"
    by (intro stream_loop_stop) simp
  with 0 show ?case by auto
next
  case (Suc n)
  show ?case
  proof (cases "ls_state s \<notin> {COMPLETED, ERROR} \<and> ls_iteration s < mx")
    case False
    then have "stream_loop E tools tm mx s = ([], Inr s)"
      by (rule stream_loop_stop)
    with Suc.prems show ?thesis by auto
  next
    case True
    show ?thesis
    proof (cases "loop_body E tools tm s")
      case (Inl e)
      with True Suc.prems show ?thesis by (simp add: stream_loop_raise)
    next
      case (Inr x)
      obtain t brk s' where x: "x = (t, brk, s')" by (cases x) auto
      have body: "loop_body E tools tm s = Inr (t, brk, s')" using Inr x by simp
      have v: "visits E tools tm mx s0 (brk, s')"
        using Suc.prems(1) True body by (auto intro: visits.pass)
      show ?thesis
      proof (cases brk)
        case True
        with \<open>ls_state s \<notin> {COMPLETED, ERROR} \<and> ls_iteration s < mx\<close> body Suc.prems
        have "sf = s'" by (simp add: stream_loop_break)
        with v show ?thesis by blast
      next
        case False
        have it: "ls_iteration s' = ls_iteration s + 1"
          using body by (rule loop_body_iteration)
        have m: "n = nat (mx - ls_iteration s')" using Suc.hyps(2) it by simp
        have "snd (stream_loop E tools tm mx s') = Inr sf"
          using \<open>ls_state s \<notin> {COMPLETED, ERROR} \<and> ls_iteration s < mx\<close> body False Suc.prems(2)
          by (simp add: stream_loop_continue)
        then obtain ys' where "stream_loop E tools tm mx s' = (ys', Inr sf)"
          by (cases "stream_loop E tools tm mx s'") auto
        with Suc.hyps(1) [OF m] v False show ?thesis by simp
      qed
    qed
  qed
qed

section \<open>The handlers, one by one\<close>

lemma handle_tool_execution_state_Some:
  "\<exists>new_results new_calls new_events.
     handle_tool_execution_state E bs ctx (Some f) tr =
       Inr (\<lparr>from_state = EXECUTING_TOOLS, to_state = AWAITING_FOLLOW_UP,
             trigger = ''tools_executed'',
             data = [(''tool_results'', PyResults new_results)]\<rparr>,
            ctx\<lparr>tool_call_count := tool_call_count ctx + int (length new_calls),
                 tool_call_history := tool_call_history ctx @ new_calls,
                 messages := messages ctx @
                   (if new_results \<noteq> [] then
                      [\<lparr>role = ''user'', m_content = ResultContent new_results\<rparr>]
                    else [])\<rparr>,
            tr @ new_events) \<and>
     map tc_index new_calls =
       [tool_call_count ctx + 1 .. tool_call_count ctx + int (length (tool_uses bs))] \<and>
     map (\<lambda>c. (tc_tool_name c, tc_input c)) new_calls = map snd (tool_uses bs) \<and>
     map (\<lambda>c. (tc_tool_name c, tc_input c, tc_result c)) new_calls = tool_calls_of new_events \<and>
     map tc_timestamp new_calls = clock_reads_of new_events \<and>
     model_calls_of new_events = [] \<and>
     map tr_tool_use_id new_results = map fst (tool_uses bs) \<and>
     map tr_content new_results = map tc_result new_calls \<and>
     (\<forall>r\<in>set new_results. tr_type r = ''tool_result'')"
proof -
  from execute_tool_blocks_Some [of E f bs "[]" ctx tr]
  obtain nr nc ne where
    run: "execute_tool_blocks E (Some f) bs ([], ctx, tr) =
       Inr ([] @ nr,
            ctx\<lparr>tool_call_count := tool_call_count ctx + int (length nc),
                 tool_call_history := tool_call_history ctx @ nc\<rparr>,
            tr @ ne)"
    and rest: "map tc_index nc =
       [tool_call_count ctx + 1 .. tool_call_count ctx + int (length (tool_uses bs))]"
      "map (\<lambda>c. (tc_tool_name c, tc_input c)) nc = map snd (tool_uses bs)"
      "map (\<lambda>c. (tc_tool_name c, tc_input c, tc_result c)) nc = tool_calls_of ne"
      "map tc_timestamp nc = clock_reads_of ne"
      "model_calls_of ne = []"
      "map tr_tool_use_id nr = map fst (tool_uses bs)"
      "map tr_content nr = map tc_result nc"
      "\<forall>r\<in>set nr. tr_type r = ''tool_result''"
    by blast
  have "handle_tool_execution_state E bs ctx (Some f) tr =
       Inr (\<lparr>from_state = EXECUTING_TOOLS, to_state = AWAITING_FOLLOW_UP,
             trigger = ''tools_executed'',
             data = [(''tool_results'', PyResults nr)]\<rparr>,
            ctx\<lparr>tool_call_count := tool_call_count ctx + int (length nc),
                 tool_call_history := tool_call_history ctx @ nc,
                 messages := messages ctx @
                   (if nr \<noteq> [] then
                      [\<lparr>role = ''user'', m_content = ResultContent nr\<rparr>]
                    else [])\<rparr>,
            tr @ ne)"
    by (simp add: handle_tool_execution_state_def run)
  with rest show ?thesis by blast
qed

lemma handle_tool_execution_state_no_tools:
  "tool_uses bs = [] \<Longrightarrow>
     handle_tool_execution_state E bs ctx tm tr =
       Inr (\<lparr>from_state = EXECUTING_TOOLS, to_state = AWAITING_FOLLOW_UP,
             trigger = ''tools_executed'', data = [(''tool_results'', PyResults [])]\<rparr>,
            ctx, tr)"
  by (simp add: handle_tool_execution_state_def execute_tool_blocks_no_tools)

lemma handle_tool_execution_state_None:
  "tool_uses bs \<noteq> [] \<Longrightarrow> handle_tool_execution_state E bs ctx None tr = Inl AttributeError"
  by (simp add: handle_tool_execution_state_def execute_tool_blocks_None)

text \<open>What a dispatch leaves alone, whichever handler runs.\<close>

lemma handle_tool_execution_state_frame:
  assumes "handle_tool_execution_state E bs ctx tm tr = Inr (t, ctx', tr')"
  shows "system_prompt ctx' = system_prompt ctx \<and>
     prefix (messages ctx) (messages ctx') \<and>
     prefix (tool_call_history ctx) (tool_call_history ctx') \<and>
     tool_call_count ctx' - int (length (tool_call_history ctx')) =
       tool_call_count ctx - int (length (tool_call_history ctx)) \<and>
     (\<exists>new. tr' = tr @ new \<and> model_calls_of new = [])"
proof (cases tm)
  case None
  show ?thesis
  proof (cases "tool_uses bs = []")
    case True
    with assms show ?thesis
      by (auto simp: handle_tool_execution_state_no_tools)
  next
    case False
    with assms None show ?thesis
      by (simp add: handle_tool_execution_state_None)
  qed
next
  case (Some f)
  from handle_tool_execution_state_Some [of E bs ctx f tr] assms Some
  show ?thesis by auto
qed

lemma dispatch_state_frame:
  assumes "dispatch_state E st ctx tools tm lr tr = Inr (t, ctx', tr')"
  shows "system_prompt ctx' = system_prompt ctx \<and>
     prefix (messages ctx) (messages ctx') \<and>
     prefix (tool_call_history ctx) (tool_call_history ctx') \<and>
     tool_call_count ctx' - int (length (tool_call_history ctx')) =
       tool_call_count ctx - int (length (tool_call_history ctx)) \<and>
     (\<exists>new. tr' = tr @ new \<and> (\<forall>(p, r)\<in>set (model_calls_of new). p_system p = system_prompt ctx))"
proof (cases st)
  case INITIAL
  with assms show ?thesis
    by (auto simp: dispatch_state_def handle_initial_state_def build_api_params_def Let_def)
next
  case AWAITING_TOOL_DECISION
  with assms show ?thesis
    by (auto simp: dispatch_state_def handle_tool_decision_state_def
        split: option.splits if_splits)
next
  case EXECUTING_TOOLS
  with assms have "handle_tool_execution_state E
      (case lr of None \<Rightarrow> [] | Some r \<Rightarrow> content r) ctx tm tr = Inr (t, ctx', tr')"
    by (simp add: dispatch_state_def)
  from handle_tool_execution_state_frame [OF this] show ?thesis by auto
next
  case AWAITING_FOLLOW_UP
  with assms show ?thesis
    by (auto simp: dispatch_state_def handle_follow_up_state_def build_api_params_def Let_def
        split: if_splits)
next
  case COMPLETED
  with assms show ?thesis by (simp add: dispatch_state_def)
next
  case ERROR
  with assms show ?thesis by (simp add: dispatch_state_def)
qed

section \<open>What a run preserves\<close>

lemma loop_body_frame:
  assumes "loop_body E tools tm s = Inr (t, brk, s')"
  shows "system_prompt (ls_context s') = system_prompt (ls_context s) \<and>
     prefix (messages (ls_context s)) (messages (ls_context s')) \<and>
     prefix (tool_call_history (ls_context s)) (tool_call_history (ls_context s')) \<and>
     tool_call_count (ls_context s') - int (length (tool_call_history (ls_context s'))) =
       tool_call_count (ls_context s) - int (length (tool_call_history (ls_context s))) \<and>
     (\<exists>new. ls_trace s' = ls_trace s @ new \<and>
        (\<forall>(p, r)\<in>set (model_calls_of new). p_system p = system_prompt (ls_context s)))"
proof -
  from assms obtain ctx' tr' where
    d: "dispatch_state E (ls_state s) (ls_context s) tools tm (ls_last_response s) (ls_trace s)
          = Inr (t, ctx', tr')"
    and c: "ls_context s' = ctx'" and r: "ls_trace s' = tr'"
    by (auto simp: loop_body_def Let_def split: sum.splits prod.splits if_splits)
  from dispatch_state_frame [OF d] c r show ?thesis by simp
qed

lemma visits_invariant:
  assumes "visits E tools tm mx s0 bs"
  shows "system_prompt (ls_context (snd bs)) = system_prompt (ls_context s0) \<and>
     prefix (messages (ls_context s0)) (messages (ls_context (snd bs))) \<and>
     prefix (tool_call_history (ls_context s0)) (tool_call_history (ls_context (snd bs))) \<and>
     tool_call_count (ls_context (snd bs)) - int (length (tool_call_history (ls_context (snd bs)))) =
       tool_call_count (ls_context s0) - int (length (tool_call_history (ls_context s0))) \<and>
     (\<exists>new. ls_trace (snd bs) = ls_trace s0 @ new \<and>
        (\<forall>(p, r)\<in>set (model_calls_of new). p_system p = system_prompt (ls_context s0)))"
  using assms
proof (induction rule: visits.induct)
  case start
  show ?case by (auto intro: exI [of _ "[]"])
next
  case (pass s transition brk s')
  from pass.IH obtain new where
    ih: "system_prompt (ls_context s) = system_prompt (ls_context s0)"
      "prefix (messages (ls_context s0)) (messages (ls_context s))"
      "prefix (tool_call_history (ls_context s0)) (tool_call_history (ls_context s))"
      "tool_call_count (ls_context s) - int (length (tool_call_history (ls_context s))) =
         tool_call_count (ls_context s0) - int (length (tool_call_history (ls_context s0)))"
      "ls_trace s = ls_trace s0 @ new"
      "\<forall>(p, r)\<in>set (model_calls_of new). p_system p = system_prompt (ls_context s0)"
    by auto
  from loop_body_frame [OF pass.hyps(4)] obtain new' where
    st: "system_prompt (ls_context s') = system_prompt (ls_context s)"
      "prefix (messages (ls_context s)) (messages (ls_context s'))"
      "prefix (tool_call_history (ls_context s)) (tool_call_history (ls_context s'))"
      "tool_call_count (ls_context s') - int (length (tool_call_history (ls_context s'))) =
         tool_call_count (ls_context s) - int (length (tool_call_history (ls_context s)))"
      "ls_trace s' = ls_trace s @ new'"
      "\<forall>(p, r)\<in>set (model_calls_of new'). p_system p = system_prompt (ls_context s)"
    by auto
  have "ls_trace s' = ls_trace s0 @ (new @ new')"
    using ih(5) st(5) by simp
  moreover have "\<forall>(p, r)\<in>set (model_calls_of (new @ new')). p_system p = system_prompt (ls_context s0)"
    using ih(1) ih(6) st(6) by (auto simp: model_calls_of_append)
  ultimately have "\<exists>n. ls_trace s' = ls_trace s0 @ n \<and>
      (\<forall>(p, r)\<in>set (model_calls_of n). p_system p = system_prompt (ls_context s0))"
    by blast
  with ih st show ?case
    by (auto intro: prefix_order.trans)
qed

section \<open>The context's invariants\<close>

text \<open>
  C7. Throughout a run of \<^verbatim>\<open>generate_response_stream\<close>: in every state the loop visits, and
  in the state it ends in, \<^verbatim>\<open>tool_call_count\<close> is the length of \<^verbatim>\<open>tool_call_history\<close>, the
  message list still begins with the query's user turn, and \<^verbatim>\<open>system_prompt\<close> is the value
  given at creation. Every single dispatch, from any context, only appends to the messages
  and to the history, keeps the system prompt, and keeps the count equal to the length of
  the log if it was so; \<^verbatim>\<open>add_tool_call\<close> alone keeps it too.
\<close>

theorem context_invariants:
  "(visits E tools tm mx (initial_loop_state q h) (brk, s) \<longrightarrow>
      tool_call_count (ls_context s) = int (length (tool_call_history (ls_context s))) \<and>
      prefix [\<lparr>role = ''user'', m_content = StrContent q\<rparr>] (messages (ls_context s)) \<and>
      system_prompt (ls_context s) = system_content h) \<and>
   (generate_response_stream E q h tools tm mx = (ys, Inr sf) \<longrightarrow>
      tool_call_count (ls_context sf) = int (length (tool_call_history (ls_context sf))) \<and>
      prefix [\<lparr>role = ''user'', m_content = StrContent q\<rparr>] (messages (ls_context sf)) \<and>
      system_prompt (ls_context sf) = system_content h) \<and>
   (dispatch_state E st ctx tools tm lr tr = Inr (t, ctx', tr') \<longrightarrow>
      prefix (messages ctx) (messages ctx') \<and>
      prefix (tool_call_history ctx) (tool_call_history ctx') \<and>
      system_prompt ctx' = system_prompt ctx \<and>
      (tool_call_count ctx = int (length (tool_call_history ctx)) \<longrightarrow>
         tool_call_count ctx' = int (length (tool_call_history ctx')))) \<and>
   (tool_call_count ctx = int (length (tool_call_history ctx)) \<longrightarrow>
      tool_call_count (fst (add_tool_call E ctx name inp res tr)) =
        int (length (tool_call_history (fst (add_tool_call E ctx name inp res tr)))))"
proof (intro conjI impI)
  let ?s0 = "initial_loop_state q h"
  have init: "tool_call_count (ls_context ?s0) = 0" "tool_call_history (ls_context ?s0) = []"
    "messages (ls_context ?s0) = [\<lparr>role = ''user'', m_content = StrContent q\<rparr>]"
    "system_prompt (ls_context ?s0) = system_content h"
    by (simp_all add: initial_loop_state_def initial_context_def)
  {
    fix b s' assume v: "visits E tools tm mx ?s0 (b, s')"
    from visits_invariant [OF v] init
    have "tool_call_count (ls_context s') = int (length (tool_call_history (ls_context s')))"
      "prefix [\<lparr>role = ''user'', m_content = StrContent q\<rparr>] (messages (ls_context s'))"
      "system_prompt (ls_context s') = system_content h"
      by simp_all
  } note at_visit = this
  {
    assume "visits E tools tm mx ?s0 (brk, s)"
    from at_visit [OF this]
    show "tool_call_count (ls_context s) = int (length (tool_call_history (ls_context s)))"
      "prefix [\<lparr>role = ''user'', m_content = StrContent q\<rparr>] (messages (ls_context s))"
      "system_prompt (ls_context s) = system_content h"
      by simp_all
  }
  {
    assume run: "generate_response_stream E q h tools tm mx = (ys, Inr sf)"
    then obtain ys' where "stream_loop E tools tm mx ?s0 = (ys', Inr sf)"
      by (auto simp: generate_response_stream_def split: prod.splits sum.splits if_splits)
    from stream_loop_visits [OF visits.start this]
    obtain b where "visits E tools tm mx ?s0 (b, sf)" by blast
    from at_visit [OF this]
    show "tool_call_count (ls_context sf) = int (length (tool_call_history (ls_context sf)))"
      "prefix [\<lparr>role = ''user'', m_content = StrContent q\<rparr>] (messages (ls_context sf))"
      "system_prompt (ls_context sf) = system_content h"
      by simp_all
  }
  {
    assume d: "dispatch_state E st ctx tools tm lr tr = Inr (t, ctx', tr')"
    from dispatch_state_frame [OF d]
    show "prefix (messages ctx) (messages ctx')"
      "prefix (tool_call_history ctx) (tool_call_history ctx')"
      "system_prompt ctx' = system_prompt ctx"
      by simp_all
    assume "tool_call_count ctx = int (length (tool_call_history ctx))"
    with dispatch_state_frame [OF d]
    show "tool_call_count ctx' = int (length (tool_call_history ctx'))"
      by simp
  }
  {
    assume "tool_call_count ctx = int (length (tool_call_history ctx))"
    then show "tool_call_count (fst (add_tool_call E ctx name inp res tr)) =
        int (length (tool_call_history (fst (add_tool_call E ctx name inp res tr))))"
      by (simp add: add_tool_call_def Let_def)
  }
qed

theorem context_invariants_witness:
  "(\<exists>ys sf. generate_response_stream (scripted_env one_round_script) ''find x'' None
      (Some [''search'']) (Some (const_tools ''result-x'')) 10 = (ys, Inr sf) \<and>
     tool_call_count (ls_context sf) = int (length (tool_call_history (ls_context sf))) \<and>
     prefix [\<lparr>role = ''user'', m_content = StrContent ''find x''\<rparr>] (messages (ls_context sf)) \<and>
     system_prompt (ls_context sf) = SYSTEM_PROMPT) \<and>
   (\<exists>s. visits (scripted_env one_round_script) (Some [''search''])
        (Some (const_tools ''result-x'')) 10 (initial_loop_state ''find x'' None) (False, s) \<and>
      ls_state s = AWAITING_TOOL_DECISION \<and>
      tool_call_count (ls_context s) = int (length (tool_call_history (ls_context s))) \<and>
      system_prompt (ls_context s) = SYSTEM_PROMPT) \<and>
   (\<exists>t ctx' tr'. dispatch_state (scripted_env one_round_script) AWAITING_TOOL_DECISION
        (initial_context ''find x'' None) (Some [''search'']) (Some (const_tools ''result-x''))
        (Some (hd one_round_script)) [] = Inr (t, ctx', tr') \<and>
      prefix (messages (initial_context ''find x'' None)) (messages ctx') \<and>
      length (messages ctx') = 2 \<and>
      tool_call_count ctx' = int (length (tool_call_history ctx'))) \<and>
   tool_call_count (fst (add_tool_call (scripted_env one_round_script)
       (initial_context ''find x'' None) ''search'' [(''q'', ''x'')] ''result-x'' [])) =
     int (length (tool_call_history (fst (add_tool_call (scripted_env one_round_script)
       (initial_context ''find x'' None) ''search'' [(''q'', ''x'')] ''result-x'' []))))"
proof -
  let ?E = "scripted_env one_round_script"
  let ?tools = "Some [''search'']"
  let ?tm = "Some (const_tools ''result-x'')"
  let ?s0 = "initial_loop_state ''find x'' None"
  let ?c0 = "initial_context ''find x'' None"
  obtain ys sf where run: "generate_response_stream ?E ''find x'' None ?tools ?tm 10 = (ys, Inr sf)"
    by (simp add: run_defs stream_loop.simps)
  have "\<exists>t s. loop_body ?E ?tools ?tm ?s0 = Inr (t, False, s) \<and> ls_state s = AWAITING_TOOL_DECISION"
    by (simp add: run_defs)
  then obtain t1 s1 where body: "loop_body ?E ?tools ?tm ?s0 = Inr (t1, False, s1)"
    and st1: "ls_state s1 = AWAITING_TOOL_DECISION" by blast
  have v: "visits ?E ?tools ?tm 10 ?s0 (False, s1)"
    by (rule visits.pass [OF visits.start _ _ body]) (simp_all add: initial_loop_state_def)
  have "\<exists>t ctx' tr'. dispatch_state ?E AWAITING_TOOL_DECISION ?c0 ?tools ?tm
      (Some (hd one_round_script)) [] = Inr (t, ctx', tr') \<and> length (messages ctx') = 2"
    by (simp add: run_defs)
  then obtain t ctx' tr' where d: "dispatch_state ?E AWAITING_TOOL_DECISION ?c0 ?tools ?tm
      (Some (hd one_round_script)) [] = Inr (t, ctx', tr')" and l: "length (messages ctx') = 2"
    by blast
  have c0: "tool_call_count ?c0 = int (length (tool_call_history ?c0))"
    by (simp add: initial_context_def)
  note at_run = context_invariants [of ?E ?tools ?tm 10 "''find x''" None False s1 ys sf
      AWAITING_TOOL_DECISION ?c0 "Some (hd one_round_script)" "[]" t ctx' tr'
      "''search''" "[(''q'', ''x'')]" "''result-x''"]
  have 1: "tool_call_count (ls_context sf) = int (length (tool_call_history (ls_context sf)))"
    "prefix [\<lparr>role = ''user'', m_content = StrContent ''find x''\<rparr>] (messages (ls_context sf))"
    "system_prompt (ls_context sf) = SYSTEM_PROMPT"
    using at_run run by (simp_all add: system_content_def)
  have 2: "tool_call_count (ls_context s1) = int (length (tool_call_history (ls_context s1)))"
    "system_prompt (ls_context s1) = SYSTEM_PROMPT"
    using at_run v by (simp_all add: system_content_def)
  have 3: "prefix (messages ?c0) (messages ctx')"
    "tool_call_count ctx' = int (length (tool_call_history ctx'))"
    using at_run d c0 by simp_all
  have 4: "tool_call_count (fst (add_tool_call ?E ?c0 ''search'' [(''q'', ''x'')] ''result-x'' [])) =
     int (length (tool_call_history (fst (add_tool_call ?E ?c0 ''search'' [(''q'', ''x'')]
       ''result-x'' []))))"
    using at_run c0 by simp
  show ?thesis
    using run 1 v st1 2 d l 3 4 by blast
qed

section \<open>The system prompt and the conversation history\<close>

lemma SYSTEM_PROMPT_last: "last SYSTEM_PROMPT = CHR 0x0A"
  unfolding SYSTEM_PROMPT_def
  by (simp only: last_append append_is_Nil_conv list.distinct simp_thms if_False last.simps if_True)

lemma SYSTEM_PROMPT_nonempty: "SYSTEM_PROMPT \<noteq> []"
  by (simp add: SYSTEM_PROMPT_def)

lemma collect_tool_results_trace:
  "\<exists>new. snd (collect_tool_results f bs (results, tr)) = tr @ new \<and> model_calls_of new = []"
proof (induction bs arbitrary: results tr)
  case Nil
  show ?case by simp
next
  case (Cons b bs)
  show ?case
  proof (cases b)
    case (TextBlock t)
    with Cons [of results tr] show ?thesis by simp
  next
    case OtherBlock
    with Cons [of results tr] show ?thesis by simp
  next
    case (ToolUseBlock bid name inp)
    let ?res = "f tr name (KeywordArgs inp)"
    from Cons [of "results @ [\<lparr>tr_type = ''tool_result'', tr_tool_use_id = bid, tr_content = ?res\<rparr>]"
        "tr @ [ToolCall name inp ?res]"]
    obtain new where
      "snd (collect_tool_results f bs
         (results @ [\<lparr>tr_type = ''tool_result'', tr_tool_use_id = bid, tr_content = ?res\<rparr>],
          tr @ [ToolCall name inp ?res])) = (tr @ [ToolCall name inp ?res]) @ new"
      and "model_calls_of new = []"
      by blast
    then have "snd (collect_tool_results f (b # bs) (results, tr)) = tr @ (ToolCall name inp ?res # new)
        \<and> model_calls_of (ToolCall name inp ?res # new) = []"
      by (simp add: ToolUseBlock Let_def)
    then show ?thesis by blast
  qed
qed

lemma generate_response_system:
  "\<forall>(p, r)\<in>set (model_calls_of (snd (generate_response E q hist tools tm))).
     p_system p = system_content hist"
proof -
  let ?api = "build_api_params E [\<lparr>role = ''user'', m_content = StrContent q\<rparr>]
                  (system_content hist) tools"
  let ?resp = "messages_create E [] ?api"
  have sys: "p_system ?api = system_content hist"
    by (simp add: build_api_params_def)
  have direct: "\<forall>(p, r)\<in>set (model_calls_of [ModelCall ?api ?resp]). p_system p = system_content hist"
    using sys by simp
  show ?thesis
  proof (cases "\<exists>f. tm = Some f \<and> stop_reason ?resp = ''tool_use''")
    case False
    then have "snd (generate_response E q hist tools tm) = [ModelCall ?api ?resp]"
      by (auto simp: generate_response_def Let_def split: option.splits)
    with direct show ?thesis by simp
  next
    case True
    then obtain f where f: "tm = Some f" and tu: "stop_reason ?resp = ''tool_use''" by blast
    obtain results tr1 where c: "collect_tool_results f (content ?resp) ([], [ModelCall ?api ?resp])
        = (results, tr1)"
      by (cases "collect_tool_results f (content ?resp) ([], [ModelCall ?api ?resp])") auto
    from collect_tool_results_trace [of f "content ?resp" "[]" "[ModelCall ?api ?resp]"] c
    obtain new where new: "tr1 = [ModelCall ?api ?resp] @ new" "model_calls_of new = []"
      by auto
    have "\<exists>fp fr. snd (generate_response E q hist tools tm) = tr1 @ [ModelCall fp fr] \<and>
        p_system fp = system_content hist"
      using f tu c sys
      by (simp add: generate_response_def handle_tool_execution_def Let_def
          build_api_params_def)
    then obtain fp fr where "snd (generate_response E q hist tools tm) = tr1 @ [ModelCall fp fr]"
      "p_system fp = system_content hist" by blast
    with new sys show ?thesis
      by (simp add: model_calls_of_append)
  qed
qed

text \<open>
  C2, as the code has it. The history does not come before the base instructions: the
  system prompt is \<^verbatim>\<open>SYSTEM_PROMPT\<close>, followed, when a non-empty history is supplied, by
  a blank line, the heading \<^verbatim>\<open>Previous conversation:\<close> and the history. With no history,
  or an empty one, it is exactly \<^verbatim>\<open>SYSTEM_PROMPT\<close>. That string is the \<^verbatim>\<open>system\<close> argument of
  every call to the model service, in the state machine and in the single-shot path.
\<close>

theorem history_follows_base_prompt:
  "system_content None = SYSTEM_PROMPT \<and>
   system_content (Some []) = SYSTEM_PROMPT \<and>
   (h \<noteq> [] \<longrightarrow>
      system_content (Some h) =
        SYSTEM_PROMPT @ ''\<newline>\<newline>Previous conversation:\<newline>'' @ h) \<and>
   (visits E tools tm mx (initial_loop_state q hist) (brk, s) \<longrightarrow>
      (\<forall>(p, r)\<in>set (model_calls_of (ls_trace s)). p_system p = system_content hist)) \<and>
   (\<forall>(p, r)\<in>set (model_calls_of (snd (generate_response E q hist tools tm))).
      p_system p = system_content hist)"
proof (intro conjI impI)
  show "system_content None = SYSTEM_PROMPT" "system_content (Some []) = SYSTEM_PROMPT"
    by (simp_all add: system_content_def)
  show "system_content (Some h) = SYSTEM_PROMPT @ ''\<newline>\<newline>Previous conversation:\<newline>'' @ h"
    if "h \<noteq> []" using that by (simp add: system_content_def)
  show "\<forall>(p, r)\<in>set (model_calls_of (ls_trace s)). p_system p = system_content hist"
    if v: "visits E tools tm mx (initial_loop_state q hist) (brk, s)"
    using visits_invariant [OF v]
    by (auto simp: initial_loop_state_def initial_context_def)
  show "\<forall>(p, r)\<in>set (model_calls_of (snd (generate_response E q hist tools tm))).
      p_system p = system_content hist"
    by (rule generate_response_system)
qed

text \<open>
  C2 as the spec words it, with the history before the base instructions, fails: with the
  history \<^verbatim>\<open>hi\<close> the prompt does not end with the base instructions at all.
\<close>

theorem history_is_not_a_prefix:
  "\<not> (\<exists>pre. pre \<noteq> [] \<and> system_content (Some ''hi'') = pre @ SYSTEM_PROMPT)"
proof
  assume "\<exists>pre. pre \<noteq> [] \<and> system_content (Some ''hi'') = pre @ SYSTEM_PROMPT"
  then obtain pre where eq: "system_content (Some ''hi'') = pre @ SYSTEM_PROMPT"
    by blast
  have "last (system_content (Some ''hi'')) = CHR ''i''"
    by (simp add: system_content_def)
  moreover have "last (pre @ SYSTEM_PROMPT) = CHR 0x0A"
    using SYSTEM_PROMPT_nonempty SYSTEM_PROMPT_last by simp
  ultimately show False
    using eq by simp
qed

theorem history_follows_base_prompt_witness:
  "system_content (Some ''hi'') = SYSTEM_PROMPT @ ''\<newline>\<newline>Previous conversation:\<newline>hi'' \<and>
   map (\<lambda>(p, r). p_system p)
     (model_calls_of (snd (generate_response (scripted_env one_round_script) ''find x''
        (Some ''hi'') (Some [''search'']) (Some (const_tools ''result-x''))))) =
   [SYSTEM_PROMPT @ ''\<newline>\<newline>Previous conversation:\<newline>hi'',
    SYSTEM_PROMPT @ ''\<newline>\<newline>Previous conversation:\<newline>hi''] \<and>
   (\<exists>s. visits (scripted_env one_round_script) (Some [''search''])
        (Some (const_tools ''result-x'')) 10 (initial_loop_state ''find x'' (Some ''hi''))
        (False, s) \<and>
      map (\<lambda>(p, r). p_system p) (model_calls_of (ls_trace s)) =
        [SYSTEM_PROMPT @ ''\<newline>\<newline>Previous conversation:\<newline>hi''])"
proof -
  let ?E = "scripted_env one_round_script"
  let ?tools = "Some [''search'']"
  let ?tm = "Some (const_tools ''result-x'')"
  let ?s0 = "initial_loop_state ''find x'' (Some ''hi'')"
  have len: "length (model_calls_of (snd (generate_response ?E ''find x'' (Some ''hi'') ?tools
      ?tm))) = 2"
    by (simp add: generate_response_def handle_tool_execution_def run_defs)
  have "\<exists>t s. loop_body ?E ?tools ?tm ?s0 = Inr (t, False, s) \<and>
      length (model_calls_of (ls_trace s)) = 1"
    by (simp add: run_defs)
  then obtain t1 s1 where body: "loop_body ?E ?tools ?tm ?s0 = Inr (t1, False, s1)"
    and l1: "length (model_calls_of (ls_trace s1)) = 1" by blast
  have v: "visits ?E ?tools ?tm 10 ?s0 (False, s1)"
    by (rule visits.pass [OF visits.start _ _ body]) (simp_all add: initial_loop_state_def)
  note inst = history_follows_base_prompt [of "''hi''" ?E ?tools ?tm 10 "''find x''"
      "Some ''hi''" False s1]
  have sc: "system_content (Some ''hi'') = SYSTEM_PROMPT @ ''\<newline>\<newline>Previous conversation:\<newline>hi''"
    using inst by simp
  have all: "\<forall>(p, r)\<in>set (model_calls_of (snd (generate_response ?E ''find x'' (Some ''hi'')
        ?tools ?tm))). p_system p = system_content (Some ''hi'')"
    using inst by blast
  have all1: "\<forall>(p, r)\<in>set (model_calls_of (ls_trace s1)). p_system p = system_content (Some ''hi'')"
    using inst v by blast
  from len obtain a b where ab: "model_calls_of (snd (generate_response ?E ''find x''
      (Some ''hi'') ?tools ?tm)) = [a, b]"
    by (auto simp: length_Suc_conv numeral_2_eq_2)
  from l1 obtain c where c: "model_calls_of (ls_trace s1) = [c]"
    by (auto simp: length_Suc_conv)
  have 2: "map (\<lambda>(p, r). p_system p) (model_calls_of (snd (generate_response ?E ''find x''
      (Some ''hi'') ?tools ?tm))) =
   [SYSTEM_PROMPT @ ''\<newline>\<newline>Previous conversation:\<newline>hi'',
    SYSTEM_PROMPT @ ''\<newline>\<newline>Previous conversation:\<newline>hi'']"
    using ab all sc by (auto split: prod.splits)
  have 3: "map (\<lambda>(p, r). p_system p) (model_calls_of (ls_trace s1)) =
        [SYSTEM_PROMPT @ ''\<newline>\<newline>Previous conversation:\<newline>hi'']"
    using c all1 sc by (auto split: prod.splits)
  have 4: "\<exists>s. visits ?E ?tools ?tm 10 ?s0 (False, s) \<and>
      map (\<lambda>(p, r). p_system p) (model_calls_of (ls_trace s)) =
        [SYSTEM_PROMPT @ ''\<newline>\<newline>Previous conversation:\<newline>hi'']"
    by (intro exI conjI) (rule v, rule 3)
  show ?thesis
    by (intro conjI) (rule sc, rule 2, rule 4)
qed

section \<open>Executing the requested tools\<close>




section \<open>A tool round without tool blocks\<close>

text \<open>
  C9. When the response that led to \<open>EXECUTING_TOOLS\<close> holds no tool-invocation block, the
  execution step changes neither the context nor the trace, with or without a tool
  manager, and still yields \<^verbatim>\<open>tools_executed\<close> to \<open>AWAITING_FOLLOW_UP\<close> with an empty
  \<^verbatim>\<open>tool_results\<close>. If that response came with stop reason \<^verbatim>\<open>tool_use\<close>, the decision
  handler had appended it as an assistant turn, and the follow-up handler then sends
  exactly one request, whose messages end with that assistant turn.
\<close>

theorem no_tool_blocks_no_effect:
  assumes "tool_uses (content resp) = []"
  shows "handle_tool_execution_state E (content resp) ctx tm tr =
       Inr (\<lparr>from_state = EXECUTING_TOOLS, to_state = AWAITING_FOLLOW_UP,
             trigger = ''tools_executed'', data = [(''tool_results'', PyResults [])]\<rparr>,
            ctx, tr) \<and>
     dispatch_state E EXECUTING_TOOLS ctx tools tm (Some resp) tr =
       Inr (\<lparr>from_state = EXECUTING_TOOLS, to_state = AWAITING_FOLLOW_UP,
             trigger = ''tools_executed'', data = [(''tool_results'', PyResults [])]\<rparr>,
            ctx, tr) \<and>
     (stop_reason resp = ''tool_use'' \<longrightarrow>
        (\<exists>t1 ctx1 t2 t3 ctx3 api r.
           handle_tool_decision_state resp ctx tr = (t1, ctx1, tr) \<and>
           messages ctx1 = messages ctx @
             [\<lparr>role = ''assistant'', m_content = BlockContent (content resp)\<rparr>] \<and>
           dispatch_state E EXECUTING_TOOLS ctx1 tools tm (Some resp) tr = Inr (t2, ctx1, tr) \<and>
           to_state t2 = AWAITING_FOLLOW_UP \<and>
           dispatch_state E AWAITING_FOLLOW_UP ctx1 tools tm (Some resp) tr =
             Inr (t3, ctx3, tr @ [ModelCall api r]) \<and>
           p_messages api = messages ctx @
             [\<lparr>role = ''assistant'', m_content = BlockContent (content resp)\<rparr>]))"
proof (intro conjI impI)
  show h: "handle_tool_execution_state E (content resp) ctx tm tr =
       Inr (\<lparr>from_state = EXECUTING_TOOLS, to_state = AWAITING_FOLLOW_UP,
             trigger = ''tools_executed'', data = [(''tool_results'', PyResults [])]\<rparr>,
            ctx, tr)"
    using assms by (rule handle_tool_execution_state_no_tools)
  then show "dispatch_state E EXECUTING_TOOLS ctx tools tm (Some resp) tr =
       Inr (\<lparr>from_state = EXECUTING_TOOLS, to_state = AWAITING_FOLLOW_UP,
             trigger = ''tools_executed'', data = [(''tool_results'', PyResults [])]\<rparr>,
            ctx, tr)"
    by (simp add: dispatch_state_def)
  assume tu: "stop_reason resp = ''tool_use''"
  define ctx1 where "ctx1 = ctx\<lparr>messages := messages ctx @
               [\<lparr>role = ''assistant'', m_content = BlockContent (content resp)\<rparr>]\<rparr>"
  have d1: "\<exists>t1. handle_tool_decision_state resp ctx tr = (t1, ctx1, tr)"
    using tu by (simp add: handle_tool_decision_state_def ctx1_def)
  have m1: "messages ctx1 = messages ctx @
             [\<lparr>role = ''assistant'', m_content = BlockContent (content resp)\<rparr>]"
    by (simp add: ctx1_def)
  have d2: "\<exists>t2. dispatch_state E EXECUTING_TOOLS ctx1 tools tm (Some resp) tr = Inr (t2, ctx1, tr)
      \<and> to_state t2 = AWAITING_FOLLOW_UP"
    using assms by (simp add: dispatch_state_def handle_tool_execution_state_no_tools)
  have d3: "\<exists>t3 ctx3 api r. dispatch_state E AWAITING_FOLLOW_UP ctx1 tools tm (Some resp) tr =
             Inr (t3, ctx3, tr @ [ModelCall api r]) \<and> p_messages api = messages ctx1"
    by (simp add: dispatch_state_def handle_follow_up_state_def build_api_params_def Let_def)
  from d1 m1 d2 d3
  show "\<exists>t1 ctx1 t2 t3 ctx3 api r.
           handle_tool_decision_state resp ctx tr = (t1, ctx1, tr) \<and>
           messages ctx1 = messages ctx @
             [\<lparr>role = ''assistant'', m_content = BlockContent (content resp)\<rparr>] \<and>
           dispatch_state E EXECUTING_TOOLS ctx1 tools tm (Some resp) tr = Inr (t2, ctx1, tr) \<and>
           to_state t2 = AWAITING_FOLLOW_UP \<and>
           dispatch_state E AWAITING_FOLLOW_UP ctx1 tools tm (Some resp) tr =
             Inr (t3, ctx3, tr @ [ModelCall api r]) \<and>
           p_messages api = messages ctx @
             [\<lparr>role = ''assistant'', m_content = BlockContent (content resp)\<rparr>]"
    by (metis (no_types, lifting))
qed

theorem no_tool_blocks_no_effect_witness:
  "tool_uses [TextBlock ''Let me think.''] = [] \<and>
   handle_tool_execution_state (scripted_env []) [TextBlock ''Let me think.'']
     (initial_context ''find x'' None) None [] =
       Inr (\<lparr>from_state = EXECUTING_TOOLS, to_state = AWAITING_FOLLOW_UP,
             trigger = ''tools_executed'', data = [(''tool_results'', PyResults [])]\<rparr>,
            initial_context ''find x'' None, []) \<and>
   (\<exists>t1 ctx1 t2 t3 ctx3 api r.
      handle_tool_decision_state
        \<lparr>stop_reason = ''tool_use'', content = [TextBlock ''Let me think.'']\<rparr>
        (initial_context ''find x'' None) [] = (t1, ctx1, []) \<and>
      dispatch_state (scripted_env []) EXECUTING_TOOLS ctx1 None None
        (Some \<lparr>stop_reason = ''tool_use'', content = [TextBlock ''Let me think.'']\<rparr>) [] =
        Inr (t2, ctx1, []) \<and>
      dispatch_state (scripted_env []) AWAITING_FOLLOW_UP ctx1 None None
        (Some \<lparr>stop_reason = ''tool_use'', content = [TextBlock ''Let me think.'']\<rparr>) [] =
        Inr (t3, ctx3, [ModelCall api r]) \<and>
      p_messages api =
        [\<lparr>role = ''user'', m_content = StrContent ''find x''\<rparr>,
         \<lparr>role = ''assistant'', m_content = BlockContent [TextBlock ''Let me think.'']\<rparr>])"
proof -
  let ?r = "\<lparr>stop_reason = ''tool_use'', content = [TextBlock ''Let me think.'']\<rparr>"
  let ?c = "initial_context ''find x'' None"
  let ?E = "scripted_env []"
  have h: "tool_uses (content ?r) = []" by simp
  have tu: "stop_reason ?r = ''tool_use''" by simp
  note inst = no_tool_blocks_no_effect [OF h, of ?E ?c None "[]" None]
  have 1: "handle_tool_execution_state ?E [TextBlock ''Let me think.''] ?c None [] =
       Inr (\<lparr>from_state = EXECUTING_TOOLS, to_state = AWAITING_FOLLOW_UP,
             trigger = ''tools_executed'', data = [(''tool_results'', PyResults [])]\<rparr>, ?c, [])"
    using inst by simp
  from inst [THEN conjunct2, THEN conjunct2, rule_format, OF tu]
  obtain t1 ctx1 t2 t3 ctx3 api r where
    a: "handle_tool_decision_state ?r ?c [] = (t1, ctx1, [])"
    and b: "messages ctx1 = messages ?c @
        [\<lparr>role = ''assistant'', m_content = BlockContent (content ?r)\<rparr>]"
    and c: "dispatch_state ?E EXECUTING_TOOLS ctx1 None None (Some ?r) [] = Inr (t2, ctx1, [])"
    and d: "dispatch_state ?E AWAITING_FOLLOW_UP ctx1 None None (Some ?r) [] =
        Inr (t3, ctx3, [] @ [ModelCall api r])"
    and e: "p_messages api = messages ?c @
        [\<lparr>role = ''assistant'', m_content = BlockContent (content ?r)\<rparr>]"
    by (elim exE conjE) (rule that; assumption)
  have d': "dispatch_state ?E AWAITING_FOLLOW_UP ctx1 None None (Some ?r) [] =
        Inr (t3, ctx3, [ModelCall api r])"
    using d by simp
  have e': "p_messages api =
        [\<lparr>role = ''user'', m_content = StrContent ''find x''\<rparr>,
         \<lparr>role = ''assistant'', m_content = BlockContent [TextBlock ''Let me think.'']\<rparr>]"
    using e by (simp add: initial_context_def)
  have 2: "\<exists>t1 ctx1 t2 t3 ctx3 api r.
      handle_tool_decision_state ?r ?c [] = (t1, ctx1, []) \<and>
      dispatch_state ?E EXECUTING_TOOLS ctx1 None None (Some ?r) [] = Inr (t2, ctx1, []) \<and>
      dispatch_state ?E AWAITING_FOLLOW_UP ctx1 None None (Some ?r) [] =
        Inr (t3, ctx3, [ModelCall api r]) \<and>
      p_messages api =
        [\<lparr>role = ''user'', m_content = StrContent ''find x''\<rparr>,
         \<lparr>role = ''assistant'', m_content = BlockContent [TextBlock ''Let me think.'']\<rparr>]"
    by (intro exI conjI) (rule a, rule c, rule d', rule e')
  show ?thesis
    by (intro conjI) (simp, rule 1, rule 2)
qed

section \<open>Natural completion and truncation\<close>

lemma py_of_first_text_Some:
  "content resp = pre @ TextBlock x # post \<and> (\<forall>b\<in>set pre. \<not> text_bearing b) \<Longrightarrow>
     py_of_text (first_text (content resp)) = PyStr x"
  using first_text_Some [of "content resp" pre x post] by simp

lemma py_of_first_text_None:
  "\<forall>b\<in>set (content resp). \<not> text_bearing b \<Longrightarrow>
     py_of_text (first_text (content resp)) = PyNone"
  using first_text_None [of "content resp"] by simp

text \<open>
  C5. A response with stop reason \<^verbatim>\<open>end_turn\<close> takes the decision handler, and the
  follow-up handler when it is the answer to its request, to \<open>COMPLETED\<close> with trigger
  \<^verbatim>\<open>end_turn\<close>; \<^verbatim>\<open>final_text\<close> is the text of the first text-bearing block, whatever comes
  before it, and \<^verbatim>\<open>None\<close> when no block bears text: still \<open>COMPLETED\<close>, not \<open>ERROR\<close>.
\<close>

theorem end_turn_completes:
  "(stop_reason resp = ''end_turn'' \<longrightarrow>
      (\<exists>t. handle_tool_decision_state resp ctx tr = (t, ctx, tr) \<and>
         from_state t = AWAITING_TOOL_DECISION \<and> to_state t = COMPLETED \<and>
         trigger t = ''end_turn'' \<and>
         map_of (data t) ''response'' = Some (PyResponse resp) \<and>
         (\<forall>pre x post. content resp = pre @ TextBlock x # post \<and>
              (\<forall>b\<in>set pre. \<not> text_bearing b) \<longrightarrow>
            map_of (data t) ''final_text'' = Some (PyStr x)) \<and>
         ((\<forall>b\<in>set (content resp). \<not> text_bearing b) \<longrightarrow>
            map_of (data t) ''final_text'' = Some PyNone))) \<and>
   (messages_create E tr (build_api_params E (messages ctx) (system_prompt ctx) tools) = resp \<and>
    stop_reason resp = ''end_turn'' \<longrightarrow>
      (\<exists>t. handle_follow_up_state E ctx tools tr =
           (t, ctx, tr @ [ModelCall (build_api_params E (messages ctx) (system_prompt ctx) tools)
                            resp]) \<and>
         from_state t = AWAITING_FOLLOW_UP \<and> to_state t = COMPLETED \<and>
         trigger t = ''end_turn'' \<and>
         map_of (data t) ''response'' = Some (PyResponse resp) \<and>
         (\<forall>pre x post. content resp = pre @ TextBlock x # post \<and>
              (\<forall>b\<in>set pre. \<not> text_bearing b) \<longrightarrow>
            map_of (data t) ''final_text'' = Some (PyStr x)) \<and>
         ((\<forall>b\<in>set (content resp). \<not> text_bearing b) \<longrightarrow>
            map_of (data t) ''final_text'' = Some PyNone)))"
proof (intro conjI impI)
  assume e: "stop_reason resp = ''end_turn''"
  let ?t = "\<lparr>from_state = AWAITING_TOOL_DECISION, to_state = COMPLETED,
          trigger = ''end_turn'',
          data = [(''final_text'', py_of_text (first_text (content resp))),
                  (''response'', PyResponse resp)]\<rparr>"
  have run: "handle_tool_decision_state resp ctx tr = (?t, ctx, tr)"
    using e by (simp add: handle_tool_decision_state_def)
  show "\<exists>t. handle_tool_decision_state resp ctx tr = (t, ctx, tr) \<and>
         from_state t = AWAITING_TOOL_DECISION \<and> to_state t = COMPLETED \<and>
         trigger t = ''end_turn'' \<and>
         map_of (data t) ''response'' = Some (PyResponse resp) \<and>
         (\<forall>pre x post. content resp = pre @ TextBlock x # post \<and>
              (\<forall>b\<in>set pre. \<not> text_bearing b) \<longrightarrow>
            map_of (data t) ''final_text'' = Some (PyStr x)) \<and>
         ((\<forall>b\<in>set (content resp). \<not> text_bearing b) \<longrightarrow>
            map_of (data t) ''final_text'' = Some PyNone)"
  proof (intro exI [of _ ?t] conjI allI impI)
    show "handle_tool_decision_state resp ctx tr = (?t, ctx, tr)" by (rule run)
    show "map_of (data ?t) ''final_text'' = Some (PyStr x)"
      if "content resp = pre @ TextBlock x # post \<and> (\<forall>b\<in>set pre. \<not> text_bearing b)"
      for pre x post
      using py_of_first_text_Some [OF that] by simp
    show "map_of (data ?t) ''final_text'' = Some PyNone"
      if "\<forall>b\<in>set (content resp). \<not> text_bearing b"
      using py_of_first_text_None [OF that] by simp
  qed simp_all
next
  assume "messages_create E tr (build_api_params E (messages ctx) (system_prompt ctx) tools) = resp
    \<and> stop_reason resp = ''end_turn''"
  then have r: "messages_create E tr (build_api_params E (messages ctx) (system_prompt ctx) tools)
      = resp" and e: "stop_reason resp = ''end_turn''"
    by simp_all
  let ?t = "\<lparr>from_state = AWAITING_FOLLOW_UP, to_state = COMPLETED,
          trigger = ''end_turn'',
          data = [(''final_text'', py_of_text (first_text (content resp))),
                  (''response'', PyResponse resp)]\<rparr>"
  have run: "handle_follow_up_state E ctx tools tr =
      (?t, ctx, tr @ [ModelCall (build_api_params E (messages ctx) (system_prompt ctx) tools) resp])"
    using e by (simp add: handle_follow_up_state_def r Let_def)
  show "\<exists>t. handle_follow_up_state E ctx tools tr =
           (t, ctx, tr @ [ModelCall (build_api_params E (messages ctx) (system_prompt ctx) tools)
                            resp]) \<and>
         from_state t = AWAITING_FOLLOW_UP \<and> to_state t = COMPLETED \<and>
         trigger t = ''end_turn'' \<and>
         map_of (data t) ''response'' = Some (PyResponse resp) \<and>
         (\<forall>pre x post. content resp = pre @ TextBlock x # post \<and>
              (\<forall>b\<in>set pre. \<not> text_bearing b) \<longrightarrow>
            map_of (data t) ''final_text'' = Some (PyStr x)) \<and>
         ((\<forall>b\<in>set (content resp). \<not> text_bearing b) \<longrightarrow>
            map_of (data t) ''final_text'' = Some PyNone)"
  proof (intro exI [of _ ?t] conjI allI impI)
    show "handle_follow_up_state E ctx tools tr =
      (?t, ctx, tr @ [ModelCall (build_api_params E (messages ctx) (system_prompt ctx) tools) resp])"
      by (rule run)
    show "map_of (data ?t) ''final_text'' = Some (PyStr x)"
      if "content resp = pre @ TextBlock x # post \<and> (\<forall>b\<in>set pre. \<not> text_bearing b)"
      for pre x post
      using py_of_first_text_Some [OF that] by simp
    show "map_of (data ?t) ''final_text'' = Some PyNone"
      if "\<forall>b\<in>set (content resp). \<not> text_bearing b"
      using py_of_first_text_None [OF that] by simp
  qed simp_all
qed

theorem end_turn_completes_witness:
  "(\<exists>t. handle_tool_decision_state
          \<lparr>stop_reason = ''end_turn'', content = [OtherBlock, TextBlock ''4'', TextBlock ''5'']\<rparr>
          (initial_context ''What is 2+2?'' None) [] = (t, initial_context ''What is 2+2?'' None, [])
        \<and> to_state t = COMPLETED \<and> map_of (data t) ''final_text'' = Some (PyStr ''4'')) \<and>
   (\<exists>t. handle_tool_decision_state \<lparr>stop_reason = ''end_turn'', content = [OtherBlock]\<rparr>
          (initial_context ''What is 2+2?'' None) [] = (t, initial_context ''What is 2+2?'' None, [])
        \<and> to_state t = COMPLETED \<and> map_of (data t) ''final_text'' = Some PyNone) \<and>
   (\<exists>t tr. handle_follow_up_state
          (const_env \<lparr>stop_reason = ''end_turn'', content = [OtherBlock]\<rparr>)
          (initial_context ''What is 2+2?'' None) None [] =
            (t, initial_context ''What is 2+2?'' None, tr)
        \<and> to_state t = COMPLETED \<and> map_of (data t) ''final_text'' = Some PyNone)"
proof -
  let ?r1 = "\<lparr>stop_reason = ''end_turn'', content = [OtherBlock, TextBlock ''4'', TextBlock ''5'']\<rparr>"
  let ?r2 = "\<lparr>stop_reason = ''end_turn'', content = [OtherBlock]\<rparr>"
  let ?c = "initial_context ''What is 2+2?'' None"
  have a: "content ?r1 = [OtherBlock] @ TextBlock ''4'' # [TextBlock ''5'']
      \<and> (\<forall>b\<in>set [OtherBlock]. \<not> text_bearing b)"
    by simp
  have e1: "stop_reason ?r1 = ''end_turn''" and e2: "stop_reason ?r2 = ''end_turn''"
    by simp_all
  have n: "\<forall>b\<in>set (content ?r2). \<not> text_bearing b" by simp
  from end_turn_completes [of ?r1 ?c "[]" "scripted_env []" None, THEN conjunct1, rule_format, OF e1]
  obtain t1 where t1: "handle_tool_decision_state ?r1 ?c [] = (t1, ?c, [])"
    "to_state t1 = COMPLETED"
    "\<forall>pre x post. content ?r1 = pre @ TextBlock x # post \<and>
        (\<forall>b\<in>set pre. \<not> text_bearing b) \<longrightarrow> map_of (data t1) ''final_text'' = Some (PyStr x)"
    by (elim exE conjE) (rule that; assumption)
  from end_turn_completes [of ?r2 ?c "[]" "scripted_env []" None, THEN conjunct1, rule_format, OF e2]
  obtain t2 where t2: "handle_tool_decision_state ?r2 ?c [] = (t2, ?c, [])"
    "to_state t2 = COMPLETED"
    "(\<forall>b\<in>set (content ?r2). \<not> text_bearing b) \<longrightarrow> map_of (data t2) ''final_text'' = Some PyNone"
    by (elim exE conjE) (rule that; assumption)
  have call: "messages_create (const_env ?r2) []
      (build_api_params (const_env ?r2) (messages ?c) (system_prompt ?c) None) = ?r2
      \<and> stop_reason ?r2 = ''end_turn''"
    by (simp add: const_env_def)
  from end_turn_completes [of ?r2 ?c "[]" "const_env ?r2" None, THEN conjunct2, rule_format,
      OF call]
  obtain t3 where t3: "handle_follow_up_state (const_env ?r2) ?c None [] =
      (t3, ?c, [] @ [ModelCall (build_api_params (const_env ?r2) (messages ?c) (system_prompt ?c)
         None) ?r2])"
    "to_state t3 = COMPLETED"
    "(\<forall>b\<in>set (content ?r2). \<not> text_bearing b) \<longrightarrow> map_of (data t3) ''final_text'' = Some PyNone"
    by (elim exE conjE) (rule that; assumption)
  have f1: "map_of (data t1) ''final_text'' = Some (PyStr ''4'')"
    using t1(3) a by blast
  have f2: "map_of (data t2) ''final_text'' = Some PyNone"
    using t2(3) n by blast
  have f3: "map_of (data t3) ''final_text'' = Some PyNone"
    using t3(3) n by blast
  show ?thesis
    using t1(1,2) f1 t2(1,2) f2 t3(1,2) f3 by blast
qed

text \<open>
  C6. A response with stop reason \<^verbatim>\<open>max_tokens\<close> takes the decision handler, and the
  follow-up handler when it is the answer to its request, to \<open>ERROR\<close> with trigger
  \<^verbatim>\<open>max_tokens\<close>, the error text \<^verbatim>\<open>Token limit reached\<close> and as \<^verbatim>\<open>partial_text\<close> the text of the
  first text-bearing block, \<^verbatim>\<open>None\<close> when there is none. The loop ends with that pass:
  it yields the one transition and calls the model service no more (the decision state
  makes no call at all, the follow-up state only the call that was truncated).
\<close>

theorem max_tokens_is_terminal:
  "(stop_reason resp = ''max_tokens'' \<longrightarrow>
      (\<exists>t. handle_tool_decision_state resp ctx tr = (t, ctx, tr) \<and>
         from_state t = AWAITING_TOOL_DECISION \<and> to_state t = ERROR \<and>
         trigger t = ''max_tokens'' \<and>
         map_of (data t) ''error'' = Some (PyStr ''Token limit reached'') \<and>
         (\<forall>pre x post. content resp = pre @ TextBlock x # post \<and>
              (\<forall>b\<in>set pre. \<not> text_bearing b) \<longrightarrow>
            map_of (data t) ''partial_text'' = Some (PyStr x)) \<and>
         ((\<forall>b\<in>set (content resp). \<not> text_bearing b) \<longrightarrow>
            map_of (data t) ''partial_text'' = Some PyNone))) \<and>
   (messages_create E tr (build_api_params E (messages ctx) (system_prompt ctx) tools) = resp \<and>
    stop_reason resp = ''max_tokens'' \<longrightarrow>
      (\<exists>t. handle_follow_up_state E ctx tools tr =
           (t, ctx, tr @ [ModelCall (build_api_params E (messages ctx) (system_prompt ctx) tools)
                            resp]) \<and>
         from_state t = AWAITING_FOLLOW_UP \<and> to_state t = ERROR \<and>
         trigger t = ''max_tokens'' \<and>
         map_of (data t) ''error'' = Some (PyStr ''Token limit reached'') \<and>
         (\<forall>pre x post. content resp = pre @ TextBlock x # post \<and>
              (\<forall>b\<in>set pre. \<not> text_bearing b) \<longrightarrow>
            map_of (data t) ''partial_text'' = Some (PyStr x)) \<and>
         ((\<forall>b\<in>set (content resp). \<not> text_bearing b) \<longrightarrow>
            map_of (data t) ''partial_text'' = Some PyNone))) \<and>
   (ls_state s = AWAITING_TOOL_DECISION \<and> ls_last_response s = Some resp \<and>
    stop_reason resp = ''max_tokens'' \<and> ls_iteration s < mx \<longrightarrow>
      (\<exists>t s'. stream_loop E tools tm mx s = ([t], Inr s') \<and> to_state t = ERROR \<and>
         trigger t = ''max_tokens'' \<and> ls_trace s' = ls_trace s)) \<and>
   (ls_state s = AWAITING_FOLLOW_UP \<and>
    messages_create E (ls_trace s)
      (build_api_params E (messages (ls_context s)) (system_prompt (ls_context s)) tools) = resp \<and>
    stop_reason resp = ''max_tokens'' \<and> ls_iteration s < mx \<longrightarrow>
      (\<exists>t s'. stream_loop E tools tm mx s = ([t], Inr s') \<and> to_state t = ERROR \<and>
         trigger t = ''max_tokens'' \<and>
         ls_trace s' = ls_trace s @
           [ModelCall (build_api_params E (messages (ls_context s))
                         (system_prompt (ls_context s)) tools) resp]))"
proof (intro conjI impI)
  assume e: "stop_reason resp = ''max_tokens''"
  let ?t = "\<lparr>from_state = AWAITING_TOOL_DECISION, to_state = ERROR,
          trigger = ''max_tokens'',
          data = [(''error'', PyStr ''Token limit reached''),
                  (''partial_text'', py_of_text (first_text (content resp)))]\<rparr>"
  have run: "handle_tool_decision_state resp ctx tr = (?t, ctx, tr)"
    using e by (simp add: handle_tool_decision_state_def)
  show "\<exists>t. handle_tool_decision_state resp ctx tr = (t, ctx, tr) \<and>
         from_state t = AWAITING_TOOL_DECISION \<and> to_state t = ERROR \<and>
         trigger t = ''max_tokens'' \<and>
         map_of (data t) ''error'' = Some (PyStr ''Token limit reached'') \<and>
         (\<forall>pre x post. content resp = pre @ TextBlock x # post \<and>
              (\<forall>b\<in>set pre. \<not> text_bearing b) \<longrightarrow>
            map_of (data t) ''partial_text'' = Some (PyStr x)) \<and>
         ((\<forall>b\<in>set (content resp). \<not> text_bearing b) \<longrightarrow>
            map_of (data t) ''partial_text'' = Some PyNone)"
  proof (intro exI [of _ ?t] conjI allI impI)
    show "handle_tool_decision_state resp ctx tr = (?t, ctx, tr)" by (rule run)
    show "map_of (data ?t) ''partial_text'' = Some (PyStr x)"
      if "content resp = pre @ TextBlock x # post \<and> (\<forall>b\<in>set pre. \<not> text_bearing b)"
      for pre x post
      using py_of_first_text_Some [OF that] by simp
    show "map_of (data ?t) ''partial_text'' = Some PyNone"
      if "\<forall>b\<in>set (content resp). \<not> text_bearing b"
      using py_of_first_text_None [OF that] by simp
  qed simp_all
next
  assume "messages_create E tr (build_api_params E (messages ctx) (system_prompt ctx) tools) = resp
    \<and> stop_reason resp = ''max_tokens''"
  then have r: "messages_create E tr (build_api_params E (messages ctx) (system_prompt ctx) tools)
      = resp" and e: "stop_reason resp = ''max_tokens''"
    by simp_all
  let ?t = "\<lparr>from_state = AWAITING_FOLLOW_UP, to_state = ERROR,
          trigger = ''max_tokens'',
          data = [(''error'', PyStr ''Token limit reached''),
                  (''partial_text'', py_of_text (first_text (content resp)))]\<rparr>"
  have run: "handle_follow_up_state E ctx tools tr =
      (?t, ctx, tr @ [ModelCall (build_api_params E (messages ctx) (system_prompt ctx) tools) resp])"
    using e by (simp add: handle_follow_up_state_def r Let_def)
  show "\<exists>t. handle_follow_up_state E ctx tools tr =
           (t, ctx, tr @ [ModelCall (build_api_params E (messages ctx) (system_prompt ctx) tools)
                            resp]) \<and>
         from_state t = AWAITING_FOLLOW_UP \<and> to_state t = ERROR \<and>
         trigger t = ''max_tokens'' \<and>
         map_of (data t) ''error'' = Some (PyStr ''Token limit reached'') \<and>
         (\<forall>pre x post. content resp = pre @ TextBlock x # post \<and>
              (\<forall>b\<in>set pre. \<not> text_bearing b) \<longrightarrow>
            map_of (data t) ''partial_text'' = Some (PyStr x)) \<and>
         ((\<forall>b\<in>set (content resp). \<not> text_bearing b) \<longrightarrow>
            map_of (data t) ''partial_text'' = Some PyNone)"
  proof (intro exI [of _ ?t] conjI allI impI)
    show "handle_follow_up_state E ctx tools tr =
      (?t, ctx, tr @ [ModelCall (build_api_params E (messages ctx) (system_prompt ctx) tools) resp])"
      by (rule run)
    show "map_of (data ?t) ''partial_text'' = Some (PyStr x)"
      if "content resp = pre @ TextBlock x # post \<and> (\<forall>b\<in>set pre. \<not> text_bearing b)"
      for pre x post
      using py_of_first_text_Some [OF that] by simp
    show "map_of (data ?t) ''partial_text'' = Some PyNone"
      if "\<forall>b\<in>set (content resp). \<not> text_bearing b"
      using py_of_first_text_None [OF that] by simp
  qed simp_all
next
  assume "ls_state s = AWAITING_TOOL_DECISION \<and> ls_last_response s = Some resp \<and>
    stop_reason resp = ''max_tokens'' \<and> ls_iteration s < mx"
  then have st: "ls_state s = AWAITING_TOOL_DECISION" and lr: "ls_last_response s = Some resp"
    and e: "stop_reason resp = ''max_tokens''" and it: "ls_iteration s < mx"
    by simp_all
  let ?t = "\<lparr>from_state = AWAITING_TOOL_DECISION, to_state = ERROR,
          trigger = ''max_tokens'',
          data = [(''error'', PyStr ''Token limit reached''),
                  (''partial_text'', py_of_text (first_text (content resp)))]\<rparr>"
  let ?s' = "s\<lparr>ls_iteration := ls_iteration s + 1, ls_context := ls_context s,
      ls_trace := ls_trace s\<rparr>"
  have body: "loop_body E tools tm s = Inr (?t, True, ?s')"
    using st lr e by (simp add: loop_body_def dispatch_state_def handle_tool_decision_state_def)
  have "stream_loop E tools tm mx s = ([?t], Inr ?s')"
    using st it body by (intro stream_loop_break) simp_all
  then show "\<exists>t s'. stream_loop E tools tm mx s = ([t], Inr s') \<and> to_state t = ERROR \<and>
         trigger t = ''max_tokens'' \<and> ls_trace s' = ls_trace s"
    by simp
next
  let ?api = "build_api_params E (messages (ls_context s)) (system_prompt (ls_context s)) tools"
  assume "ls_state s = AWAITING_FOLLOW_UP \<and> messages_create E (ls_trace s) ?api = resp \<and>
    stop_reason resp = ''max_tokens'' \<and> ls_iteration s < mx"
  then have st: "ls_state s = AWAITING_FOLLOW_UP"
    and r: "messages_create E (ls_trace s) ?api = resp"
    and e: "stop_reason resp = ''max_tokens''" and it: "ls_iteration s < mx"
    by simp_all
  let ?t = "\<lparr>from_state = AWAITING_FOLLOW_UP, to_state = ERROR,
          trigger = ''max_tokens'',
          data = [(''error'', PyStr ''Token limit reached''),
                  (''partial_text'', py_of_text (first_text (content resp)))]\<rparr>"
  let ?s' = "s\<lparr>ls_iteration := ls_iteration s + 1, ls_context := ls_context s,
      ls_trace := ls_trace s @ [ModelCall ?api resp]\<rparr>"
  have body: "loop_body E tools tm s = Inr (?t, True, ?s')"
    using st e by (simp add: loop_body_def dispatch_state_def handle_follow_up_state_def r Let_def)
  have "stream_loop E tools tm mx s = ([?t], Inr ?s')"
    using st it body by (intro stream_loop_break) simp_all
  then show "\<exists>t s'. stream_loop E tools tm mx s = ([t], Inr s') \<and> to_state t = ERROR \<and>
         trigger t = ''max_tokens'' \<and> ls_trace s' = ls_trace s @ [ModelCall ?api resp]"
    by simp
qed

theorem max_tokens_is_terminal_witness:
  "(\<exists>t. handle_tool_decision_state
          \<lparr>stop_reason = ''max_tokens'', content = [TextBlock ''The answer is'']\<rparr>
          (initial_context ''What is 2+2?'' None) [] = (t, initial_context ''What is 2+2?'' None, [])
        \<and> to_state t = ERROR \<and> trigger t = ''max_tokens''
        \<and> map_of (data t) ''error'' = Some (PyStr ''Token limit reached'')
        \<and> map_of (data t) ''partial_text'' = Some (PyStr ''The answer is'')) \<and>
   (\<exists>t tr. handle_follow_up_state
          (const_env \<lparr>stop_reason = ''max_tokens'', content = []\<rparr>)
          (initial_context ''What is 2+2?'' None) None [] =
            (t, initial_context ''What is 2+2?'' None, tr)
        \<and> to_state t = ERROR \<and> trigger t = ''max_tokens''
        \<and> map_of (data t) ''error'' = Some (PyStr ''Token limit reached'')
        \<and> map_of (data t) ''partial_text'' = Some PyNone) \<and>
   (\<exists>t s'. stream_loop (scripted_env []) None None 10
          \<lparr>ls_state = AWAITING_TOOL_DECISION, ls_iteration = 1,
            ls_last_response =
              Some \<lparr>stop_reason = ''max_tokens'', content = [TextBlock ''The answer is'']\<rparr>,
            ls_context = initial_context ''What is 2+2?'' None, ls_trace = []\<rparr> = ([t], Inr s')
        \<and> to_state t = ERROR \<and> ls_trace s' = []) \<and>
   (\<exists>t s'. stream_loop (const_env \<lparr>stop_reason = ''max_tokens'', content = []\<rparr>) None None 10
          \<lparr>ls_state = AWAITING_FOLLOW_UP, ls_iteration = 3, ls_last_response = None,
            ls_context = initial_context ''What is 2+2?'' None, ls_trace = []\<rparr> = ([t], Inr s')
        \<and> to_state t = ERROR \<and> length (ls_trace s') = 1)"
proof -
  let ?r1 = "\<lparr>stop_reason = ''max_tokens'', content = [TextBlock ''The answer is'']\<rparr>"
  let ?r2 = "\<lparr>stop_reason = ''max_tokens'', content = []::content_block list\<rparr>"
  let ?c = "initial_context ''What is 2+2?'' None"
  let ?s1 = "\<lparr>ls_state = AWAITING_TOOL_DECISION, ls_iteration = 1, ls_last_response = Some ?r1,
            ls_context = ?c, ls_trace = []\<rparr>"
  let ?s2 = "\<lparr>ls_state = AWAITING_FOLLOW_UP, ls_iteration = 3, ls_last_response = None,
            ls_context = ?c, ls_trace = []\<rparr>"
  have a: "content ?r1 = [] @ TextBlock ''The answer is'' # []
      \<and> (\<forall>b\<in>set []. \<not> text_bearing b)"
    by simp
  have e1: "stop_reason ?r1 = ''max_tokens''"
    by simp
  have n: "\<forall>b\<in>set (content ?r2). \<not> text_bearing b" by simp
  from max_tokens_is_terminal [of ?r1 ?c "[]" "scripted_env []" None ?s1 10 None,
      THEN conjunct1, rule_format, OF e1]
  obtain t1 where t1: "handle_tool_decision_state ?r1 ?c [] = (t1, ?c, [])"
    "to_state t1 = ERROR" "trigger t1 = ''max_tokens''"
    "map_of (data t1) ''error'' = Some (PyStr ''Token limit reached'')"
    "\<forall>pre x post. content ?r1 = pre @ TextBlock x # post \<and>
        (\<forall>b\<in>set pre. \<not> text_bearing b) \<longrightarrow> map_of (data t1) ''partial_text'' = Some (PyStr x)"
    by (elim exE conjE) (rule that; assumption)
  have f1: "map_of (data t1) ''partial_text'' = Some (PyStr ''The answer is'')"
    using t1(5) a by blast
  have call: "messages_create (const_env ?r2) []
      (build_api_params (const_env ?r2) (messages ?c) (system_prompt ?c) None) = ?r2
      \<and> stop_reason ?r2 = ''max_tokens''"
    by (simp add: const_env_def)
  from max_tokens_is_terminal [of ?r2 ?c "[]" "const_env ?r2" None ?s2 10 None,
      THEN conjunct2, THEN conjunct1, rule_format, OF call]
  obtain t2 where t2: "handle_follow_up_state (const_env ?r2) ?c None [] =
      (t2, ?c, [] @ [ModelCall (build_api_params (const_env ?r2) (messages ?c) (system_prompt ?c)
         None) ?r2])"
    "to_state t2 = ERROR" "trigger t2 = ''max_tokens''"
    "map_of (data t2) ''error'' = Some (PyStr ''Token limit reached'')"
    "(\<forall>b\<in>set (content ?r2). \<not> text_bearing b) \<longrightarrow> map_of (data t2) ''partial_text'' = Some PyNone"
    by (elim exE conjE) (rule that; assumption)
  have f2: "map_of (data t2) ''partial_text'' = Some PyNone"
    using t2(5) n by blast
  have h3: "ls_state ?s1 = AWAITING_TOOL_DECISION \<and> ls_last_response ?s1 = Some ?r1 \<and>
      stop_reason ?r1 = ''max_tokens'' \<and> ls_iteration ?s1 < 10"
    by simp
  from max_tokens_is_terminal [of ?r1 ?c "[]" "scripted_env []" None ?s1 10 None,
      THEN conjunct2, THEN conjunct2, THEN conjunct1, rule_format, OF h3]
  obtain t3 s3 where t3: "stream_loop (scripted_env []) None None 10 ?s1 = ([t3], Inr s3)"
    "to_state t3 = ERROR" "ls_trace s3 = ls_trace ?s1"
    by (elim exE conjE) (rule that; assumption)
  have h4: "ls_state ?s2 = AWAITING_FOLLOW_UP \<and>
      messages_create (const_env ?r2) (ls_trace ?s2)
        (build_api_params (const_env ?r2) (messages (ls_context ?s2))
           (system_prompt (ls_context ?s2)) None) = ?r2 \<and>
      stop_reason ?r2 = ''max_tokens'' \<and> ls_iteration ?s2 < 10"
    by (simp add: const_env_def)
  from max_tokens_is_terminal [of ?r2 ?c "[]" "const_env ?r2" None ?s2 10 None,
      THEN conjunct2, THEN conjunct2, THEN conjunct2, rule_format, OF h4]
  obtain t4 s4 where t4: "stream_loop (const_env ?r2) None None 10 ?s2 = ([t4], Inr s4)"
    "to_state t4 = ERROR"
    "ls_trace s4 = ls_trace ?s2 @
       [ModelCall (build_api_params (const_env ?r2) (messages (ls_context ?s2))
          (system_prompt (ls_context ?s2)) None) ?r2]"
    by (elim exE conjE) (rule that; assumption)
  have l3: "ls_trace s3 = []" using t3(3) by simp
  have l4: "length (ls_trace s4) = 1" using t4(3) by simp
  show ?thesis
    using t1(1-4) f1 t2(1-4) f2 t3(1,2) l3 t4(1,2) l4 by blast
qed

section \<open>The single-shot path reads the first block unguarded\<close>

lemma content0_text_cases:
  "(content0_text resp = Inr t \<longleftrightarrow> (\<exists>bs. content resp = TextBlock t # bs)) \<and>
   (content resp = [] \<longrightarrow> content0_text resp = Inl IndexError) \<and>
   (\<forall>b bs. content resp = b # bs \<and> \<not> text_bearing b \<longrightarrow> content0_text resp = Inl AttributeError)"
proof (cases "content resp")
  case Nil
  then show ?thesis by (simp add: content0_text_def)
next
  case (Cons b bs)
  then show ?thesis by (cases b) (simp_all add: content0_text_def)
qed

lemma generate_response_final:
  "\<exists>pre p resp.
     snd (generate_response E q hist tools tm) = pre @ [ModelCall p resp] \<and>
     fst (generate_response E q hist tools tm) = content0_text resp \<and>
     (tm = None \<or> stop_reason (messages_create E []
         (build_api_params E [\<lparr>role = ''user'', m_content = StrContent q\<rparr>]
            (system_content hist) tools)) \<noteq> ''tool_use'' \<longrightarrow>
        pre = [] \<and>
        p = build_api_params E [\<lparr>role = ''user'', m_content = StrContent q\<rparr>]
              (system_content hist) tools \<and>
        resp = messages_create E [] p)"
proof -
  let ?api = "build_api_params E [\<lparr>role = ''user'', m_content = StrContent q\<rparr>]
                  (system_content hist) tools"
  let ?resp = "messages_create E [] ?api"
  show ?thesis
  proof (cases "\<exists>f. tm = Some f \<and> stop_reason ?resp = ''tool_use''")
    case False
    then have "generate_response E q hist tools tm = (content0_text ?resp, [] @ [ModelCall ?api ?resp])"
      by (auto simp: generate_response_def Let_def split: option.splits)
    then show ?thesis by (intro exI [of _ "[]"] exI [of _ ?api] exI [of _ ?resp]) simp
  next
    case True
    then obtain f where f: "tm = Some f" and tu: "stop_reason ?resp = ''tool_use''" by blast
    obtain results tr1 where c: "collect_tool_results f (content ?resp) ([], [ModelCall ?api ?resp])
        = (results, tr1)"
      by (cases "collect_tool_results f (content ?resp) ([], [ModelCall ?api ?resp])") auto
    have "\<exists>fp fr. generate_response E q hist tools tm = (content0_text fr, tr1 @ [ModelCall fp fr])"
      using f tu c
      by (simp add: generate_response_def handle_tool_execution_def Let_def)
    then obtain fp fr where
      "generate_response E q hist tools tm = (content0_text fr, tr1 @ [ModelCall fp fr])"
      by blast
    then show ?thesis using f tu
      by (intro exI [of _ tr1] exI [of _ fp] exI [of _ fr]) simp
  qed
qed

text \<open>
  C10. \<^verbatim>\<open>generate_response\<close> ends with a call to the model service and returns
  \<^verbatim>\<open>content[0].text\<close> of that call's response, unguarded: it returns the text \<open>t\<close> exactly
  when that content begins with a text block of text \<open>t\<close>; on an empty content it raises
  \<^verbatim>\<open>IndexError\<close>, and on a first block without text \<^verbatim>\<open>AttributeError\<close>, never a null
  answer. Without a tool manager, or when the first response does not ask for tools, the
  response in question is the first and only one, also when its stop reason is
  \<^verbatim>\<open>tool_use\<close>.
\<close>

theorem generate_response_reads_first_block:
  "\<exists>pre p resp.
     snd (generate_response E q hist tools tm) = pre @ [ModelCall p resp] \<and>
     (\<forall>t. fst (generate_response E q hist tools tm) = Inr t \<longleftrightarrow>
            (\<exists>bs. content resp = TextBlock t # bs)) \<and>
     (content resp = [] \<longrightarrow> fst (generate_response E q hist tools tm) = Inl IndexError) \<and>
     (\<forall>b bs. content resp = b # bs \<and> \<not> text_bearing b \<longrightarrow>
        fst (generate_response E q hist tools tm) = Inl AttributeError) \<and>
     (tm = None \<or> stop_reason (messages_create E []
         (build_api_params E [\<lparr>role = ''user'', m_content = StrContent q\<rparr>]
            (system_content hist) tools)) \<noteq> ''tool_use'' \<longrightarrow>
        pre = [] \<and>
        p = build_api_params E [\<lparr>role = ''user'', m_content = StrContent q\<rparr>]
              (system_content hist) tools \<and>
        resp = messages_create E [] p)"
proof -
  obtain pre p resp where
    all: "snd (generate_response E q hist tools tm) = pre @ [ModelCall p resp] \<and>
     fst (generate_response E q hist tools tm) = content0_text resp \<and>
     (tm = None \<or> stop_reason (messages_create E []
         (build_api_params E [\<lparr>role = ''user'', m_content = StrContent q\<rparr>]
            (system_content hist) tools)) \<noteq> ''tool_use'' \<longrightarrow>
        pre = [] \<and>
        p = build_api_params E [\<lparr>role = ''user'', m_content = StrContent q\<rparr>]
              (system_content hist) tools \<and>
        resp = messages_create E [] p)"
    using generate_response_final [of E q hist tools tm] by (elim exE) (erule that)
  note tr = all [THEN conjunct1]
  note res = all [THEN conjunct2, THEN conjunct1]
  note first = all [THEN conjunct2, THEN conjunct2]
  note c = content0_text_cases [of resp]
  show ?thesis
  proof (intro exI [of _ pre] exI [of _ p] exI [of _ resp] conjI)
    show "snd (generate_response E q hist tools tm) = pre @ [ModelCall p resp]" by (rule tr)
    show "\<forall>t. fst (generate_response E q hist tools tm) = Inr t \<longleftrightarrow>
            (\<exists>bs. content resp = TextBlock t # bs)"
    proof
      fix t
      from content0_text_cases [of resp t]
      show "fst (generate_response E q hist tools tm) = Inr t \<longleftrightarrow>
            (\<exists>bs. content resp = TextBlock t # bs)"
        by (simp only: res)
    qed
    show "content resp = [] \<longrightarrow> fst (generate_response E q hist tools tm) = Inl IndexError"
      using content0_text_cases [of resp] by (simp only: res) blast
    show "\<forall>b bs. content resp = b # bs \<and> \<not> text_bearing b \<longrightarrow>
        fst (generate_response E q hist tools tm) = Inl AttributeError"
      using content0_text_cases [of resp] by (simp only: res) blast
    show "tm = None \<or> stop_reason (messages_create E []
         (build_api_params E [\<lparr>role = ''user'', m_content = StrContent q\<rparr>]
            (system_content hist) tools)) \<noteq> ''tool_use'' \<longrightarrow>
        pre = [] \<and>
        p = build_api_params E [\<lparr>role = ''user'', m_content = StrContent q\<rparr>]
              (system_content hist) tools \<and>
        resp = messages_create E [] p"
      by (rule first)
  qed
qed

theorem generate_response_reads_first_block_witness:
  "fst (generate_response
      (const_env \<lparr>stop_reason = ''tool_use'',
         content = [ToolUseBlock ''toolu_1'' ''search'' [(''q'', ''x'')]]\<rparr>)
      ''find x'' None (Some [''search'']) None) = Inl AttributeError \<and>
   fst (generate_response (const_env \<lparr>stop_reason = ''end_turn'', content = []\<rparr>)
      ''find x'' None None None) = Inl IndexError \<and>
   fst (generate_response (const_env \<lparr>stop_reason = ''end_turn'', content = [TextBlock ''4'']\<rparr>)
      ''What is 2+2?'' None None None) = Inr ''4''"
proof -
  let ?r1 = "\<lparr>stop_reason = ''tool_use'',
         content = [ToolUseBlock ''toolu_1'' ''search'' [(''q'', ''x'')]]\<rparr>"
  let ?r2 = "\<lparr>stop_reason = ''end_turn'', content = []::content_block list\<rparr>"
  let ?r3 = "\<lparr>stop_reason = ''end_turn'', content = [TextBlock ''4'']\<rparr>"
  from generate_response_reads_first_block [of "const_env ?r1" "''find x''" None
      "Some [''search'']" None]
  have 1: "fst (generate_response (const_env ?r1) ''find x'' None (Some [''search'']) None)
      = Inl AttributeError"
    by (auto simp: const_env_def)
  from generate_response_reads_first_block [of "const_env ?r2" "''find x''" None None None]
  have 2: "fst (generate_response (const_env ?r2) ''find x'' None None None) = Inl IndexError"
    by (auto simp: const_env_def)
  from generate_response_reads_first_block [of "const_env ?r3" "''What is 2+2?''" None None None]
  have 3: "fst (generate_response (const_env ?r3) ''What is 2+2?'' None None None) = Inr ''4''"
    by (auto simp: const_env_def)
  from 1 2 3 show ?thesis by simp
qed

section \<open>A model that always asks for tools\<close>

lemma loop_body_always_tool_use:
  assumes tu: "\<forall>tr p. stop_reason (messages_create E tr p) = ''tool_use''"
    and k: "keeps_going s"
  shows "\<exists>t s'. loop_body E tools (Some f) s = Inr (t, False, s') \<and> keeps_going s' \<and>
     to_state t \<notin> {COMPLETED, ERROR} \<and> trigger t \<noteq> ''max_iterations_exceeded''"
proof (cases "ls_state s")
  case INITIAL
  then show ?thesis
    using tu by (simp add: loop_body_def dispatch_state_def handle_initial_state_def Let_def
        keeps_going_def)
next
  case AWAITING_TOOL_DECISION
  with k obtain r where r: "ls_last_response s = Some r" "stop_reason r = ''tool_use''"
    by (auto simp: keeps_going_def split: option.splits)
  with AWAITING_TOOL_DECISION show ?thesis
    by (simp add: loop_body_def dispatch_state_def handle_tool_decision_state_def Let_def
        keeps_going_def)
next
  case EXECUTING_TOOLS
  obtain nr nc ne where
    all: "handle_tool_execution_state E
        (case ls_last_response s of None \<Rightarrow> [] | Some r \<Rightarrow> content r) (ls_context s) (Some f)
        (ls_trace s) =
       Inr (\<lparr>from_state = EXECUTING_TOOLS, to_state = AWAITING_FOLLOW_UP,
             trigger = ''tools_executed'',
             data = [(''tool_results'', PyResults nr)]\<rparr>,
            (ls_context s)\<lparr>tool_call_count := tool_call_count (ls_context s) + int (length nc),
                 tool_call_history := tool_call_history (ls_context s) @ nc,
                 messages := messages (ls_context s) @
                   (if nr \<noteq> [] then
                      [\<lparr>role = ''user'', m_content = ResultContent nr\<rparr>]
                    else [])\<rparr>,
            ls_trace s @ ne)"
    using handle_tool_execution_state_Some [of E
        "case ls_last_response s of None \<Rightarrow> [] | Some r \<Rightarrow> content r" "ls_context s" f "ls_trace s"]
    by (elim exE conjE) (erule that)
  show ?thesis
    using EXECUTING_TOOLS
    by (simp add: loop_body_def dispatch_state_def all keeps_going_def)
next
  case AWAITING_FOLLOW_UP
  then show ?thesis
    using tu by (simp add: loop_body_def dispatch_state_def handle_follow_up_state_def Let_def
        keeps_going_def)
next
  case COMPLETED
  with k show ?thesis by (simp add: keeps_going_def)
next
  case ERROR
  with k show ?thesis by (simp add: keeps_going_def)
qed

lemma keeps_going_not_terminal: "keeps_going s \<Longrightarrow> ls_state s \<notin> {COMPLETED, ERROR}"
  by (auto simp: keeps_going_def)

lemma stream_loop_always_tool_use:
  assumes tu: "\<forall>tr p. stop_reason (messages_create E tr p) = ''tool_use''"
  shows "keeps_going s \<Longrightarrow>
     \<exists>ys sf. stream_loop E tools (Some f) mx s = (ys, Inr sf) \<and>
       length ys = nat (mx - ls_iteration s) \<and>
       (\<forall>t\<in>set ys. to_state t \<notin> {COMPLETED, ERROR} \<and> trigger t \<noteq> ''max_iterations_exceeded'') \<and>
       keeps_going sf \<and> ls_iteration sf = ls_iteration s + int (nat (mx - ls_iteration s))"
proof (induction "nat (mx - ls_iteration s)" arbitrary: s)
  case 0
  then have "stream_loop E tools (Some f) mx s = ([], Inr s)"
    by (intro stream_loop_stop) simp
  with 0 show ?case by simp
next
  case (Suc n)
  from Suc.hyps(2) have lt: "ls_iteration s < mx" by simp
  from loop_body_always_tool_use [OF tu Suc.prems, of tools f]
  obtain t s' where body: "loop_body E tools (Some f) s = Inr (t, False, s')"
    and k': "keeps_going s'" and nt: "to_state t \<notin> {COMPLETED, ERROR}"
    and tr: "trigger t \<noteq> ''max_iterations_exceeded''"
    by (elim exE conjE) (rule that; assumption)
  have it: "ls_iteration s' = ls_iteration s + 1"
    using body by (rule loop_body_iteration)
  have m: "n = nat (mx - ls_iteration s')" using Suc.hyps(2) it by simp
  from Suc.hyps(1) [OF m k']
  obtain ys sf where rec: "stream_loop E tools (Some f) mx s' = (ys, Inr sf)"
    and len: "length ys = nat (mx - ls_iteration s')"
    and all: "\<forall>t\<in>set ys. to_state t \<notin> {COMPLETED, ERROR} \<and> trigger t \<noteq> ''max_iterations_exceeded''"
    and kf: "keeps_going sf"
    and itf: "ls_iteration sf = ls_iteration s' + int (nat (mx - ls_iteration s'))"
    by (elim exE conjE) (rule that; assumption)
  have "stream_loop E tools (Some f) mx s = (t # ys, Inr sf)"
    using stream_loop_continue [OF keeps_going_not_terminal [OF Suc.prems] lt body] rec
    by simp
  moreover have "length (t # ys) = nat (mx - ls_iteration s)"
    using len it lt by simp
  moreover have "\<forall>u\<in>set (t # ys). to_state u \<notin> {COMPLETED, ERROR} \<and>
      trigger u \<noteq> ''max_iterations_exceeded''"
    using all nt tr by simp
  moreover have "ls_iteration sf = ls_iteration s + int (nat (mx - ls_iteration s))"
    using itf it lt by simp
  ultimately show ?case using kf by blast
qed

text \<open>
  C3, for a run that has a tool manager. When every response of the model service has
  stop reason \<^verbatim>\<open>tool_use\<close>, the run yields exactly \<^verbatim>\<open>max_iterations\<close> dispatched transitions
  (none when \<^verbatim>\<open>max_iterations\<close> is not positive), none of them terminal, and then the one
  synthesized \<open>ERROR\<close> transition with trigger \<^verbatim>\<open>max_iterations_exceeded\<close>; the iteration
  counter ends at the number of dispatches.
\<close>

theorem cap_reached_after_max_iterations:
  assumes "\<forall>tr p. stop_reason (messages_create E tr p) = ''tool_use''"
  shows "\<exists>ys sf. generate_response_stream E q hist tools (Some f) mx =
       (ys @ [\<lparr>from_state = ls_state sf, to_state = ERROR,
                trigger = ''max_iterations_exceeded'',
                data = [(''error'', PyStr (''Exceeded '' @ str_int mx @
                           '' iterations without completion''))]\<rparr>],
        Inr sf) \<and>
     length ys = nat mx \<and> ls_iteration sf = int (nat mx) \<and>
     (\<forall>t\<in>set ys. to_state t \<notin> {COMPLETED, ERROR} \<and> trigger t \<noteq> ''max_iterations_exceeded'')"
proof -
  let ?s0 = "initial_loop_state q hist"
  have k0: "keeps_going ?s0" and i0: "ls_iteration ?s0 = 0"
    by (simp_all add: keeps_going_def initial_loop_state_def)
  from stream_loop_always_tool_use [OF assms k0, of tools f mx]
  obtain ys sf where run: "stream_loop E tools (Some f) mx ?s0 = (ys, Inr sf)"
    and len: "length ys = nat (mx - ls_iteration ?s0)"
    and all: "\<forall>t\<in>set ys. to_state t \<notin> {COMPLETED, ERROR} \<and> trigger t \<noteq> ''max_iterations_exceeded''"
    and kf: "keeps_going sf"
    and itf: "ls_iteration sf = ls_iteration ?s0 + int (nat (mx - ls_iteration ?s0))"
    by (elim exE conjE) (rule that; assumption)
  have ge: "mx \<le> ls_iteration sf" using itf i0 by simp
  have nt: "ls_state sf \<notin> {COMPLETED, ERROR}" using kf by (rule keeps_going_not_terminal)
  have "generate_response_stream E q hist tools (Some f) mx =
       (ys @ [\<lparr>from_state = ls_state sf, to_state = ERROR,
                trigger = ''max_iterations_exceeded'',
                data = [(''error'', PyStr (''Exceeded '' @ str_int mx @
                           '' iterations without completion''))]\<rparr>],
        Inr sf)"
    using run ge nt by (simp add: generate_response_stream_def)
  moreover have "length ys = nat mx" using len i0 by simp
  moreover have "ls_iteration sf = int (nat mx)" using itf i0 by simp
  ultimately show ?thesis using all by blast
qed

text \<open>
  C3 as worded covers every run. Without a tool manager, a model that asks for a tool
  makes the third dispatch raise: the run ends after two transitions, with no \<open>ERROR\<close>
  transition at all.
\<close>

theorem no_tool_manager_no_cap:
  "generate_response_stream
     (const_env \<lparr>stop_reason = ''tool_use'',
        content = [ToolUseBlock ''toolu_1'' ''search'' [(''q'', ''x'')]]\<rparr>)
     ''find x'' None (Some [''search'']) None 3 =
   ([\<lparr>from_state = INITIAL, to_state = AWAITING_TOOL_DECISION, trigger = ''api_call_complete'',
       data = [(''response'', PyResponse \<lparr>stop_reason = ''tool_use'',
                 content = [ToolUseBlock ''toolu_1'' ''search'' [(''q'', ''x'')]]\<rparr>)]\<rparr>,
     \<lparr>from_state = AWAITING_TOOL_DECISION, to_state = EXECUTING_TOOLS, trigger = ''tool_use'',
       data = [(''response'', PyResponse \<lparr>stop_reason = ''tool_use'',
                 content = [ToolUseBlock ''toolu_1'' ''search'' [(''q'', ''x'')]]\<rparr>),
               (''tool_blocks'', PyBlocks [ToolUseBlock ''toolu_1'' ''search'' [(''q'', ''x'')]])]\<rparr>],
    Inl AttributeError)"
  by (simp add: run_defs stream_loop.simps)

theorem cap_reached_after_max_iterations_witness:
  "\<exists>ys sf. generate_response_stream
       (const_env \<lparr>stop_reason = ''tool_use'',
          content = [ToolUseBlock ''toolu_1'' ''search'' [(''q'', ''x'')]]\<rparr>)
       ''find x'' None (Some [''search'']) (Some (const_tools ''result-x'')) 3 =
     (ys @ [\<lparr>from_state = ls_state sf, to_state = ERROR,
              trigger = ''max_iterations_exceeded'',
              data = [(''error'', PyStr ''Exceeded 3 iterations without completion'')]\<rparr>],
      Inr sf) \<and>
     length ys = 3 \<and> ls_iteration sf = 3"
proof -
  let ?E = "const_env \<lparr>stop_reason = ''tool_use'',
          content = [ToolUseBlock ''toolu_1'' ''search'' [(''q'', ''x'')]]\<rparr>"
  have h: "\<forall>tr p. stop_reason (messages_create ?E tr p) = ''tool_use''"
    by (simp add: const_env_def)
  have s3: "str_int 3 = ''3''"
    by (simp add: str_int_def str_nat.simps)
  from cap_reached_after_max_iterations [OF h, of "''find x''" None "Some [''search'']"
      "const_tools ''result-x''" 3]
  obtain ys sf where
    run: "generate_response_stream ?E ''find x'' None (Some [''search''])
        (Some (const_tools ''result-x'')) 3 =
     (ys @ [\<lparr>from_state = ls_state sf, to_state = ERROR,
              trigger = ''max_iterations_exceeded'',
              data = [(''error'', PyStr (''Exceeded '' @ str_int 3 @
                         '' iterations without completion''))]\<rparr>],
      Inr sf)"
    and len: "length ys = nat 3" and it: "ls_iteration sf = int (nat 3)"
    by (elim exE conjE) (rule that; assumption)
  show ?thesis
    by (intro exI [of _ ys] exI [of _ sf] conjI) (simp_all add: run len it s3)
qed

section \<open>The single-shot path against the state machine\<close>











section \<open>Where the synthesized error can follow a terminal transition\<close>

lemma dispatch_state_trigger:
  "dispatch_state E st ctx tools tm lr tr = Inr (t, ctx', tr') \<Longrightarrow>
     trigger t \<noteq> ''max_iterations_exceeded''"
  by (cases st)
    (auto simp: dispatch_state_def handle_initial_state_def handle_tool_decision_state_def
      handle_follow_up_state_def handle_tool_execution_state_def Let_def
      split: option.splits if_splits sum.splits prod.splits)

lemma loop_body_shape:
  assumes "loop_body E tools tm s = Inr (t, brk, s')"
  shows "trigger t \<noteq> ''max_iterations_exceeded'' \<and>
     (brk \<longleftrightarrow> to_state t \<in> {COMPLETED, ERROR}) \<and>
     ls_state s' = (if brk then ls_state s else to_state t) \<and>
     ls_iteration s' = ls_iteration s + 1"
proof -
  from assms obtain ctx' tr' where
    d: "dispatch_state E (ls_state s) (ls_context s) tools tm (ls_last_response s) (ls_trace s)
          = Inr (t, ctx', tr')"
    by (auto simp: loop_body_def Let_def split: sum.splits prod.splits if_splits)
  from dispatch_state_trigger [OF d] have "trigger t \<noteq> ''max_iterations_exceeded''" .
  moreover from assms d have "(brk \<longleftrightarrow> to_state t \<in> {COMPLETED, ERROR}) \<and>
     ls_state s' = (if brk then ls_state s else to_state t) \<and>
     ls_iteration s' = ls_iteration s + 1"
    by (auto simp: loop_body_def Let_def split: if_splits)
  ultimately show ?thesis by simp
qed

lemma stream_loop_shape:
  "ls_state s \<notin> {COMPLETED, ERROR} \<Longrightarrow> stream_loop E tools tm mx s = (ys, r) \<Longrightarrow>
     (\<forall>t\<in>set (butlast ys). to_state t \<notin> {COMPLETED, ERROR}) \<and>
     (\<forall>t\<in>set ys. trigger t \<noteq> ''max_iterations_exceeded'') \<and>
     (\<forall>sf. r = Inr sf \<longrightarrow>
        ls_state sf \<notin> {COMPLETED, ERROR} \<and>
        ls_iteration sf = ls_iteration s + int (length ys) \<and>
        ls_iteration sf \<le> max mx (ls_iteration s) \<and>
        (ys = [] \<or> to_state (last ys) \<notin> {COMPLETED, ERROR} \<longrightarrow> mx \<le> ls_iteration sf)) \<and>
     (\<forall>e. r = Inl e \<longrightarrow> (\<forall>t\<in>set ys. to_state t \<notin> {COMPLETED, ERROR}))"
proof (induction "nat (mx - ls_iteration s)" arbitrary: s ys r)
  case 0
  then have "stream_loop E tools tm mx s = ([], Inr s)"
    by (intro stream_loop_stop) simp
  with 0 show ?case by auto
next
  case (Suc n)
  from Suc.hyps(2) have lt: "ls_iteration s < mx" by simp
  note nt = Suc.prems(1)
  show ?case
  proof (cases "loop_body E tools tm s")
    case (Inl e)
    from stream_loop_raise [OF nt lt Inl] Suc.prems(2) show ?thesis by auto
  next
    case (Inr x)
    obtain t brk s' where x: "x = (t, brk, s')" by (cases x) auto
    have body: "loop_body E tools tm s = Inr (t, brk, s')" using Inr x by simp
    from loop_body_shape [OF body]
    have tr: "trigger t \<noteq> ''max_iterations_exceeded''"
      and brk: "brk \<longleftrightarrow> to_state t \<in> {COMPLETED, ERROR}"
      and st': "ls_state s' = (if brk then ls_state s else to_state t)"
      and it: "ls_iteration s' = ls_iteration s + 1"
      by simp_all
    show ?thesis
    proof (cases brk)
      case True
      with stream_loop_break [OF nt lt] body Suc.prems(2)
      have "ys = [t]" "r = Inr s'" by simp_all
      with True brk st' it nt lt tr show ?thesis by auto
    next
      case False
      have nt': "ls_state s' \<notin> {COMPLETED, ERROR}" using False brk st' by simp
      have m: "n = nat (mx - ls_iteration s')" using Suc.hyps(2) it by simp
      obtain ys' r' where rec: "stream_loop E tools tm mx s' = (ys', r')"
        by (cases "stream_loop E tools tm mx s'") auto
      from stream_loop_continue [OF nt lt] body False rec Suc.prems(2)
      have ys: "ys = t # ys'" and r: "r = r'" by simp_all
      note ih = Suc.hyps(1) [OF m nt' rec]
      have a: "\<forall>u\<in>set (butlast ys). to_state u \<notin> {COMPLETED, ERROR}"
        using ih ys False brk by (cases ys') auto
      have b: "\<forall>u\<in>set ys. trigger u \<noteq> ''max_iterations_exceeded''"
        using ih ys tr by simp
      have c: "\<forall>sf. r = Inr sf \<longrightarrow>
        ls_state sf \<notin> {COMPLETED, ERROR} \<and>
        ls_iteration sf = ls_iteration s + int (length ys) \<and>
        ls_iteration sf \<le> max mx (ls_iteration s) \<and>
        (ys = [] \<or> to_state (last ys) \<notin> {COMPLETED, ERROR} \<longrightarrow> mx \<le> ls_iteration sf)"
      proof (intro allI impI)
        fix sf assume "r = Inr sf"
        with r have r': "r' = Inr sf" by simp
        note at_sf = ih [THEN conjunct2, THEN conjunct2, THEN conjunct1, rule_format, OF r']
        have 1: "ls_state sf \<notin> {COMPLETED, ERROR}"
          and 2: "ls_iteration sf = ls_iteration s' + int (length ys')"
          and 3: "ls_iteration sf \<le> max mx (ls_iteration s')"
          and 4: "ys' = [] \<or> to_state (last ys') \<notin> {COMPLETED, ERROR} \<longrightarrow> mx \<le> ls_iteration sf"
          using at_sf by blast+
        have 5: "ys = [] \<or> to_state (last ys) \<notin> {COMPLETED, ERROR} \<longrightarrow> mx \<le> ls_iteration sf"
          using 4 ys by (cases ys') auto
        from 1 2 3 5 it lt ys
        show "ls_state sf \<notin> {COMPLETED, ERROR} \<and>
          ls_iteration sf = ls_iteration s + int (length ys) \<and>
          ls_iteration sf \<le> max mx (ls_iteration s) \<and>
          (ys = [] \<or> to_state (last ys) \<notin> {COMPLETED, ERROR} \<longrightarrow> mx \<le> ls_iteration sf)"
          by simp
      qed
      have d: "\<forall>e. r = Inl e \<longrightarrow> (\<forall>u\<in>set ys. to_state u \<notin> {COMPLETED, ERROR})"
        using ih ys r False brk by simp
      show ?thesis
        by (intro conjI) (rule a, rule b, rule c, rule d)
    qed
  qed
qed

text \<open>
  The whole extent of the defect behind C1. A transition is yielded after a terminal one
  only when the terminal one came from the \<^verbatim>\<open>max_iterations\<close>-th dispatch, and it is then the
  synthesized \<^verbatim>\<open>max_iterations_exceeded\<close> transition and the last; and whenever a dispatch
  yields a terminal transition as the \<^verbatim>\<open>max_iterations\<close>-th, the synthesized one does
  follow it.
\<close>

theorem synthesized_error_only_at_the_cap:
  assumes "generate_response_stream E q hist tools tm mx = (ys, out)"
  shows "(\<forall>i. Suc i < length ys \<and> to_state (ys ! i) \<in> {COMPLETED, ERROR} \<longrightarrow>
            Suc (Suc i) = length ys \<and> int (Suc i) = mx \<and>
            trigger (ys ! Suc i) = ''max_iterations_exceeded'' \<and> to_state (ys ! Suc i) = ERROR) \<and>
         (\<forall>i. i < length ys \<and> to_state (ys ! i) \<in> {COMPLETED, ERROR} \<and>
              trigger (ys ! i) \<noteq> ''max_iterations_exceeded'' \<and> int (Suc i) = mx \<longrightarrow>
            Suc (Suc i) = length ys)"
proof -
  let ?s0 = "initial_loop_state q hist"
  obtain L r where loop: "stream_loop E tools tm mx ?s0 = (L, r)"
    by (cases "stream_loop E tools tm mx ?s0") auto
  have nt0: "ls_state ?s0 \<notin> {COMPLETED, ERROR}" and i0: "ls_iteration ?s0 = 0"
    by (simp_all add: initial_loop_state_def)
  note shape = stream_loop_shape [OF nt0 loop]
  have inner: "to_state (L ! i) \<notin> {COMPLETED, ERROR}" if "Suc i < length L" for i
  proof -
    from that have "i < length (butlast L)" by simp
    then have "butlast L ! i \<in> set (butlast L)" by (rule nth_mem)
    moreover have "butlast L ! i = L ! i"
      using \<open>i < length (butlast L)\<close> by (rule nth_butlast)
    ultimately have "L ! i \<in> set (butlast L)" by simp
    with shape [THEN conjunct1] show ?thesis by blast
  qed
  show ?thesis
  proof (cases r)
    case (Inl e)
    with assms loop have ys: "ys = L" by (simp add: generate_response_stream_def)
    have all: "to_state (L ! i) \<notin> {COMPLETED, ERROR}" if "i < length L" for i
      using shape [THEN conjunct2, THEN conjunct2, THEN conjunct2, rule_format, OF Inl]
        nth_mem [OF that] by blast
    show ?thesis
      unfolding ys using all by auto
  next
    case (Inr sf)
    note at_sf = shape [THEN conjunct2, THEN conjunct2, THEN conjunct1, rule_format, OF Inr]
    have nt: "ls_state sf \<notin> {COMPLETED, ERROR}"
      and len: "ls_iteration sf = int (length L)"
      and le: "ls_iteration sf \<le> max mx 0"
      using at_sf i0 by simp_all
    show ?thesis
    proof (cases "mx \<le> ls_iteration sf")
      case True
      let ?e = "\<lparr>from_state = ls_state sf, to_state = ERROR,
                     trigger = ''max_iterations_exceeded'',
                     data = [(''error'', PyStr (''Exceeded '' @ str_int mx @
                                '' iterations without completion''))]\<rparr>"
      from True nt assms loop Inr have ys: "ys = L @ [?e]"
        by (auto simp: generate_response_stream_def)
      have 1: "Suc (Suc i) = length ys \<and> int (Suc i) = mx \<and>
            trigger (ys ! Suc i) = ''max_iterations_exceeded'' \<and> to_state (ys ! Suc i) = ERROR"
        if a: "Suc i < length ys" and b: "to_state (ys ! i) \<in> {COMPLETED, ERROR}" for i
      proof -
        from a ys have iL: "i < length L" by simp
        with b ys have "to_state (L ! i) \<in> {COMPLETED, ERROR}" by (simp add: nth_append)
        with inner [of i] have "\<not> Suc i < length L" by blast
        with iL have eq: "Suc i = length L" by simp
        with len le True have "int (Suc i) = mx" by simp
        with eq ys show ?thesis by (simp add: nth_append)
      qed
      have 2: "Suc (Suc i) = length ys"
        if a: "i < length ys" and b: "to_state (ys ! i) \<in> {COMPLETED, ERROR}"
          and c: "trigger (ys ! i) \<noteq> ''max_iterations_exceeded''" for i
      proof -
        have "i \<noteq> length L" using c ys by (auto simp: nth_append)
        with a ys have iL: "i < length L" by simp
        with b ys have "to_state (L ! i) \<in> {COMPLETED, ERROR}" by (simp add: nth_append)
        with inner [of i] have "\<not> Suc i < length L" by blast
        with iL ys show ?thesis by simp
      qed
      from 1 2 show ?thesis by blast
    next
      case False
      with assms loop Inr have ys: "ys = L" by (auto simp: generate_response_stream_def)
      have 1: "\<not> (Suc i < length ys \<and> to_state (ys ! i) \<in> {COMPLETED, ERROR})" for i
        using inner [of i] ys by blast
      have 2: "\<not> (i < length ys \<and> int (Suc i) = mx)" for i
        using False len ys by auto
      from 1 2 show ?thesis by blast
    qed
  qed
qed

theorem synthesized_error_only_at_the_cap_witness:
  "length (fst (generate_response_stream
      (scripted_env [\<lparr>stop_reason = ''end_turn'', content = [TextBlock ''4'']\<rparr>])
      ''What is 2+2?'' None None None 2)) = 3 \<and>
   to_state (fst (generate_response_stream
      (scripted_env [\<lparr>stop_reason = ''end_turn'', content = [TextBlock ''4'']\<rparr>])
      ''What is 2+2?'' None None None 2) ! 1) = COMPLETED \<and>
   trigger (fst (generate_response_stream
      (scripted_env [\<lparr>stop_reason = ''end_turn'', content = [TextBlock ''4'']\<rparr>])
      ''What is 2+2?'' None None None 2) ! 2) = ''max_iterations_exceeded''"
proof -
  let ?E = "scripted_env [\<lparr>stop_reason = ''end_turn'', content = [TextBlock ''4'']\<rparr>]"
  obtain ys out where run: "generate_response_stream ?E ''What is 2+2?'' None None None 2 = (ys, out)"
    by (cases "generate_response_stream ?E ''What is 2+2?'' None None None 2") auto
  have "length (fst (generate_response_stream ?E ''What is 2+2?'' None None None 2)) = 3 \<and>
      to_state (fst (generate_response_stream ?E ''What is 2+2?'' None None None 2) ! 1)
        = COMPLETED"
    by (simp add: run_defs stream_loop.simps)
  with run have len: "length ys = 3" and c: "to_state (ys ! 1) = COMPLETED" by simp_all
  have h: "Suc 1 < length ys \<and> to_state (ys ! 1) \<in> {COMPLETED, ERROR}"
    using len c by simp
  from synthesized_error_only_at_the_cap [OF run, THEN conjunct1, rule_format, OF h]
  have "trigger (ys ! Suc 1) = ''max_iterations_exceeded''" by simp
  then have "trigger (ys ! 2) = ''max_iterations_exceeded''"
    by (simp add: numeral_2_eq_2)
  with len c run show ?thesis by simp
qed

end
